theory Spec2Isabelle
  imports Complex_Main "HOL-Library.Word" "HOL-Library.Signed_Division" "HOL-Library.Sublist"
begin

chapter \<open>The receipt processor\<close>

text \<open>
  The program is a small HTTP service in Go (\<^verbatim>\<open>receiptHandler.go\<close>): it stores the
  receipts it is sent, and on request computes the points of a stored receipt by seven
  rules (\<^verbatim>\<open>findPoints\<close>). This theory embeds the receipt model, \<^verbatim>\<open>findPoints\<close> and
  the two handlers, and proves properties of them.

  The program calls Go's standard library (\<^verbatim>\<open>strconv.ParseFloat\<close>,
  \<^verbatim>\<open>strconv.Atoi\<close>, \<^verbatim>\<open>strings.Split\<close>, \<^verbatim>\<open>strings.TrimSpace\<close>,
  \<^verbatim>\<open>unicode.IsLetter\<close>, \<^verbatim>\<open>unicode.IsDigit\<close>, \<^verbatim>\<open>math.Floor\<close>,
  \<^verbatim>\<open>math.Ceil\<close>, \<^verbatim>\<open>math.Mod\<close>) and \<^verbatim>\<open>float64\<close> arithmetic. These are
  not code of the program; the first sections model them as Go documents them, as far
  as a result of the program can depend on them.
\<close>

section \<open>Go values\<close>

text \<open>
  A Go \<^verbatim>\<open>string\<close> is a sequence of bytes: Isabelle's \<^typ>\<open>string\<close>, whose
  characters are bytes and whose \<^const>\<open>length\<close> is Go's \<^verbatim>\<open>len\<close>.
  Go's \<^verbatim>\<open>int\<close> is taken at its width on a 64-bit platform: arithmetic wraps
  around, \<^const>\<open>sint\<close> reads the value.
\<close>

type_synonym go_int = "64 word"

definition byte :: "char \<Rightarrow> nat" where
  "byte c = of_char c"

text \<open>
  Errors. \<^verbatim>\<open>strconv\<close> reports a \<^verbatim>\<open>*NumError{Func, Num, Err}\<close> whose
  \<^verbatim>\<open>Err\<close> is \<^verbatim>\<open>ErrSyntax\<close> or \<^verbatim>\<open>ErrRange\<close>; every other error of
  the program (\<^verbatim>\<open>fmt.Errorf\<close>, the JSON decoder, the identifier generator, the response
  writer) is a message.
\<close>

datatype num_err = ErrSyntax | ErrRange

datatype error = NumError string string num_err | ErrorString string

definition syntaxError :: "string \<Rightarrow> string \<Rightarrow> error" where
  "syntaxError fn str = NumError fn str ErrSyntax"

definition rangeError :: "string \<Rightarrow> string \<Rightarrow> error" where
  "rangeError fn str = NumError fn str ErrRange"

section \<open>float64\<close>

text \<open>
  A \<^verbatim>\<open>float64\<close> is a finite binary64 number, an infinity or a NaN. A finite
  number is kept as the rational it denotes; every operation that IEEE 754 rounds
  goes through \<open>round_f64\<close> (round to nearest, ties to even, 53 bits of
  precision, exponents from -1074 to 1023). The two zeros are one value: the program
  never divides by a zero nor looks at a sign, so it cannot tell them apart.
\<close>

datatype float64 = Finite rat | PosInf | NegInf | NaN

definition pow2 :: "int \<Rightarrow> rat" where
  "pow2 e = (if 0 \<le> e then 2 ^ nat e else 1 / 2 ^ nat (- e))"

text \<open>\<open>bitlen n\<close> is the number of binary digits of \<open>n\<close>.\<close>

function bitlen :: "int \<Rightarrow> int" where
  "bitlen n = (if n \<le> 0 then 0 else 1 + bitlen (n div 2))"
  by pat_completeness auto
termination
  by (relation "measure nat") auto

declare bitlen.simps [simp del]

text \<open>\<open>ilog2 a\<close> is the integer \<open>e\<close> with \<open>2^e \<le> a < 2^(e+1)\<close>, for \<open>a > 0\<close>.\<close>

definition ilog2 :: "rat \<Rightarrow> int" where
  "ilog2 a =
     (let (p, q) = quotient_of a;
          k = bitlen p - bitlen q
      in if pow2 k \<le> a then k else k - 1)"

definition round_half_even :: "rat \<Rightarrow> int" where
  "round_half_even r =
     (let f = \<lfloor>r\<rfloor>; d = r - of_int f
      in if d < 1 / 2 then f
         else if 1 / 2 < d then f + 1
         else if even f then f else f + 1)"

text \<open>
  Rounding \<open>x \<noteq> 0\<close>, in three steps: the exponent \<open>e\<close> of the binade of
  \<open>\<bar>x\<bar>\<close> (that of the smallest normal number for anything below it, which makes
  the subnormal numbers), the nearest multiple \<open>y\<close> of \<open>2^(e - 52)\<close>, and
  the overflow to an infinity when \<open>y\<close> reaches \<open>2^1024\<close>.
\<close>

definition overflow_threshold :: rat where
  "overflow_threshold = pow2 1024"

definition round_pack :: "rat \<Rightarrow> rat \<Rightarrow> float64" where
  "round_pack x y =
     (if overflow_threshold \<le> y then (if 0 < x then PosInf else NegInf)
      else Finite (if 0 < x then y else - y))"

definition round_to_ulp :: "rat \<Rightarrow> rat \<Rightarrow> rat" where
  "round_to_ulp a ulp = of_int (round_half_even (a / ulp)) * ulp"

definition round_in_binade :: "rat \<Rightarrow> int \<Rightarrow> float64" where
  "round_in_binade x e = round_pack x (round_to_ulp \<bar>x\<bar> (pow2 (e - 52)))"

definition round_f64 :: "rat \<Rightarrow> float64" where
  "round_f64 x =
     (if x = 0 then Finite 0 else round_in_binade x (max (ilog2 \<bar>x\<bar>) (- 1022)))"

text \<open>Comparison \<^verbatim>\<open>==\<close>: a NaN equals nothing, itself included.\<close>

fun f64_eq :: "float64 \<Rightarrow> float64 \<Rightarrow> bool" where
  "f64_eq (Finite x) (Finite y) = (x = y)"
| "f64_eq PosInf PosInf = True"
| "f64_eq NegInf NegInf = True"
| "f64_eq _ _ = False"

text \<open>
  \<^verbatim>\<open>math.Floor\<close> and \<^verbatim>\<open>math.Ceil\<close>: exact on finite numbers; an infinity
  and a NaN are returned as they are.
\<close>

fun Floor :: "float64 \<Rightarrow> float64" where
  "Floor (Finite x) = Finite (of_int \<lfloor>x\<rfloor>)"
| "Floor f = f"

fun Ceil :: "float64 \<Rightarrow> float64" where
  "Ceil (Finite x) = Finite (of_int \<lceil>x\<rceil>)"
| "Ceil f = f"

definition trunc :: "rat \<Rightarrow> int" where
  "trunc x = (if 0 \<le> x then \<lfloor>x\<rfloor> else \<lceil>x\<rceil>)"

text \<open>
  \<^verbatim>\<open>math.Mod(x, y)\<close>: the remainder of \<open>x / y\<close> with the sign of \<open>x\<close>,
  computed exactly. Special cases, as documented: \<open>Mod(\<plusminus>Inf, y) = NaN\<close>,
  \<open>Mod(NaN, y) = NaN\<close>, \<open>Mod(x, 0) = NaN\<close>, \<open>Mod(x, \<plusminus>Inf) = x\<close>,
  \<open>Mod(x, NaN) = NaN\<close>.
\<close>

fun Mod :: "float64 \<Rightarrow> float64 \<Rightarrow> float64" where
  "Mod (Finite x) (Finite y) =
     (if y = 0 then NaN else Finite (x - of_int (trunc (x / y)) * y))"
| "Mod (Finite x) PosInf = Finite x"
| "Mod (Finite x) NegInf = Finite x"
| "Mod _ _ = NaN"

text \<open>Multiplication and division, rounded.\<close>

fun f64_mul :: "float64 \<Rightarrow> float64 \<Rightarrow> float64" where
  "f64_mul (Finite x) (Finite y) = round_f64 (x * y)"
| "f64_mul NaN _ = NaN"
| "f64_mul _ NaN = NaN"
| "f64_mul (Finite x) PosInf = (if x = 0 then NaN else if 0 < x then PosInf else NegInf)"
| "f64_mul (Finite x) NegInf = (if x = 0 then NaN else if 0 < x then NegInf else PosInf)"
| "f64_mul PosInf (Finite y) = (if y = 0 then NaN else if 0 < y then PosInf else NegInf)"
| "f64_mul NegInf (Finite y) = (if y = 0 then NaN else if 0 < y then NegInf else PosInf)"
| "f64_mul PosInf PosInf = PosInf"
| "f64_mul PosInf NegInf = NegInf"
| "f64_mul NegInf PosInf = NegInf"
| "f64_mul NegInf NegInf = PosInf"

text \<open>
  Division by a non-zero finite number (the program divides by the constant 2 only);
  a zero divisor is taken as positive.
\<close>

fun f64_div :: "float64 \<Rightarrow> float64 \<Rightarrow> float64" where
  "f64_div (Finite x) (Finite y) =
     (if y = 0 then (if x = 0 then NaN else if 0 < x then PosInf else NegInf)
      else round_f64 (x / y))"
| "f64_div NaN _ = NaN"
| "f64_div _ NaN = NaN"
| "f64_div (Finite x) _ = Finite 0"
| "f64_div PosInf (Finite y) = (if 0 \<le> y then PosInf else NegInf)"
| "f64_div NegInf (Finite y) = (if 0 \<le> y then NegInf else PosInf)"
| "f64_div _ _ = NaN"

text \<open>The conversion \<^verbatim>\<open>float64(n)\<close> of an \<^verbatim>\<open>int\<close>.\<close>

definition float64_of_int :: "go_int \<Rightarrow> float64" where
  "float64_of_int n = round_f64 (of_int (sint n))"

text \<open>
  The untyped constants \<^verbatim>\<open>0.2\<close> and \<^verbatim>\<open>0.25\<close>, converted to
  \<^verbatim>\<open>float64\<close>: \<open>0.25\<close> is exact, \<open>0.2\<close> is rounded.
\<close>

definition const_0_2 :: float64 where
  "const_0_2 = round_f64 (1 / 5)"

definition const_0_25 :: float64 where
  "const_0_25 = Finite (1 / 4)"

text \<open>
  The platform. Three things the program's result depends on are not fixed by the
  program nor by the language: whether a code point above U+00FF is in the Unicode
  tables \<^verbatim>\<open>unicode.Letter\<close> and \<^verbatim>\<open>unicode.Digit\<close>, and what the conversion
  \<^verbatim>\<open>int(f)\<close> yields when the \<^verbatim>\<open>float64\<close> is a NaN, an infinity or
  outside the range of \<^verbatim>\<open>int\<close> (the language leaves it to the implementation).
  They are parameters of the model.
\<close>

record platform =
  unicode_Letter :: "nat \<Rightarrow> bool"
  unicode_Digit :: "nat \<Rightarrow> bool"
  int_of_unrepresentable :: "float64 \<Rightarrow> go_int"

text \<open>The conversion \<^verbatim>\<open>int(f)\<close>: truncation towards zero where the result fits.\<close>

fun int_of_float64 :: "platform \<Rightarrow> float64 \<Rightarrow> go_int" where
  "int_of_float64 pf (Finite x) =
     (if - (2 ^ 63) \<le> trunc x \<and> trunc x < 2 ^ 63 then word_of_int (trunc x)
      else int_of_unrepresentable pf (Finite x))"
| "int_of_float64 pf f = int_of_unrepresentable pf f"

section \<open>Package strconv\<close>

definition is_digit :: "char \<Rightarrow> bool" where
  "is_digit c = (byte (CHR ''0'') \<le> byte c \<and> byte c \<le> byte (CHR ''9''))"

definition digit_val :: "char \<Rightarrow> int" where
  "digit_val c = int (byte c) - int (byte (CHR ''0''))"

text \<open>\<^verbatim>\<open>lower(c)\<close> is \<^verbatim>\<open>c | ('x' - 'X')\<close>: it sets bit 5.\<close>

definition lower :: "char \<Rightarrow> nat" where
  "lower c = (if (byte c div 32) mod 2 = 1 then byte c else byte c + 32)"

subsection \<open>Atoi\<close>

text \<open>
  The digit loop of \<^verbatim>\<open>ParseUint(s, 10, 64)\<close>: a byte that is not a decimal digit
  is a syntax error, a value above \<open>2^64 - 1\<close> a range error, whichever comes first.
\<close>

fun ParseUint_loop :: "string \<Rightarrow> int \<Rightarrow> num_err + int" where
  "ParseUint_loop [] n = Inr n"
| "ParseUint_loop (c # cs) n =
     (if \<not> is_digit c then Inl ErrSyntax
      else if 2 ^ 64 - 1 < n * 10 + digit_val c then Inl ErrRange
      else ParseUint_loop cs (n * 10 + digit_val c))"

text \<open>
  \<^verbatim>\<open>Atoi(s)\<close> is \<^verbatim>\<open>ParseInt(s, 10, 0)\<close>: an optional sign and decimal digits,
  at least one; the value must fit an \<^verbatim>\<open>int\<close>.
\<close>

definition Atoi :: "string \<Rightarrow> error + go_int" where
  "Atoi s =
     (if s = [] then Inl (syntaxError ''Atoi'' s)
      else
        let neg = (hd s = CHR ''-'');
            ds = (if hd s = CHR ''+'' \<or> hd s = CHR ''-'' then tl s else s)
        in if ds = [] then Inl (syntaxError ''Atoi'' s)
           else case ParseUint_loop ds 0 of
                  Inl ErrSyntax \<Rightarrow> Inl (syntaxError ''Atoi'' s)
                | Inl ErrRange \<Rightarrow> Inl (rangeError ''Atoi'' s)
                | Inr un \<Rightarrow>
                    if \<not> neg \<and> 2 ^ 63 \<le> un then Inl (rangeError ''Atoi'' s)
                    else if neg \<and> 2 ^ 63 < un then Inl (rangeError ''Atoi'' s)
                    else Inr (word_of_int (if neg then - un else un)))"

subsection \<open>ParseFloat\<close>

text \<open>
  \<^verbatim>\<open>ParseFloat\<close> first looks for a special value (\<^verbatim>\<open>special\<close>): it recognises
  the string \<^verbatim>\<open>NaN\<close> and the strings \<^verbatim>\<open>Inf\<close> and \<^verbatim>\<open>Infinity\<close>, with an optional
  sign, in any mix of upper and lower case, and returns the value with no error.
\<close>

definition ascii_lower :: "char \<Rightarrow> char" where
  "ascii_lower c =
     (if byte (CHR ''A'') \<le> byte c \<and> byte c \<le> byte (CHR ''Z'') then char_of (byte c + 32) else c)"

definition special :: "string \<Rightarrow> float64 option" where
  "special s =
     (let body = map ascii_lower s in
      if body = ''inf'' \<or> body = ''infinity'' \<or> body = ''+inf'' \<or> body = ''+infinity''
        then Some PosInf
      else if body = ''-inf'' \<or> body = ''-infinity'' then Some NegInf
      else if body = ''nan'' then Some NaN
      else None)"

text \<open>
  \<^verbatim>\<open>readFloat\<close> scans a decimal or hexadecimal floating-point literal: an optional
  sign, an optional \<^verbatim>\<open>0x\<close>, digits with at most one point and with underscores, and an
  exponent (\<^verbatim>\<open>e\<close> for decimal, \<^verbatim>\<open>p\<close> for hexadecimal, where it is required).
  The scan of the mantissa keeps the digits read as a number, how many of them follow
  the point, and what it has seen.
\<close>

record mantissa =
  mant :: int
  frac_digits :: nat
  sawdot :: bool
  sawdigits :: bool
  underscores :: bool

definition is_hex_letter :: "char \<Rightarrow> bool" where
  "is_hex_letter c = (byte (CHR ''a'') \<le> lower c \<and> lower c \<le> byte (CHR ''f''))"

fun readFloat_digits :: "int \<Rightarrow> string \<Rightarrow> mantissa \<Rightarrow> mantissa \<times> string" where
  "readFloat_digits base [] m = (m, [])"
| "readFloat_digits base (c # cs) m =
     (if c = CHR ''_'' then readFloat_digits base cs (m\<lparr>underscores := True\<rparr>)
      else if c = CHR ''.'' then
        (if sawdot m then (m, c # cs) else readFloat_digits base cs (m\<lparr>sawdot := True\<rparr>))
      else if is_digit c then
        readFloat_digits base cs
          (m\<lparr>sawdigits := True, mant := mant m * base + digit_val c,
             frac_digits := (if sawdot m then Suc (frac_digits m) else frac_digits m)\<rparr>)
      else if base = 16 \<and> is_hex_letter c then
        readFloat_digits base cs
          (m\<lparr>sawdigits := True, mant := mant m * base + (int (lower c) - int (byte (CHR ''a'')) + 10),
             frac_digits := (if sawdot m then Suc (frac_digits m) else frac_digits m)\<rparr>)
      else (m, c # cs))"

text \<open>The digits of the exponent; once the exponent has reached 10000 further digits are dropped.\<close>

fun readFloat_exp :: "string \<Rightarrow> nat \<Rightarrow> bool \<Rightarrow> nat \<times> bool \<times> string" where
  "readFloat_exp [] e u = (e, u, [])"
| "readFloat_exp (c # cs) e u =
     (if c = CHR ''_'' then readFloat_exp cs e True
      else if is_digit c then readFloat_exp cs (if e < 10000 then e * 10 + nat (digit_val c) else e) u
      else (e, u, c # cs))"

text \<open>
  \<^verbatim>\<open>underscoreOK\<close>: an underscore stands between two digits, or between the base
  prefix and a digit. \<open>saw\<close> is the kind of the last character: a digit or the base
  prefix (\<open>0\<close>), an underscore (\<open>1\<close>), anything else (\<open>2\<close>).
\<close>

fun underscoreOK_loop :: "bool \<Rightarrow> string \<Rightarrow> nat \<Rightarrow> bool" where
  "underscoreOK_loop hex [] saw = (saw \<noteq> 1)"
| "underscoreOK_loop hex (c # cs) saw =
     (if is_digit c \<or> (hex \<and> is_hex_letter c) then underscoreOK_loop hex cs 0
      else if c = CHR ''_'' then (if saw \<noteq> 0 then False else underscoreOK_loop hex cs 1)
      else if saw = 1 then False
      else underscoreOK_loop hex cs 2)"

definition has_prefix0 :: "string \<Rightarrow> nat list \<Rightarrow> bool" where
  "has_prefix0 s ls = (case s of c # d # _ \<Rightarrow> c = CHR ''0'' \<and> lower d \<in> set ls | _ \<Rightarrow> False)"

definition underscoreOK :: "string \<Rightarrow> bool" where
  "underscoreOK s0 =
     (let s = (if s0 \<noteq> [] \<and> (hd s0 = CHR ''-'' \<or> hd s0 = CHR ''+'') then tl s0 else s0)
      in if has_prefix0 s [byte (CHR ''b''), byte (CHR ''o''), byte (CHR ''x'')]
         then underscoreOK_loop (lower (s ! 1) = byte (CHR ''x'')) (drop 2 s) 0
         else underscoreOK_loop False s 2)"

text \<open>
  \<open>readFloat s\<close> is the number the literal \<open>s\<close> denotes, with no rounding; \<open>None\<close>
  where \<open>s\<close> as a whole is not a literal.
\<close>

definition readFloat :: "string \<Rightarrow> rat option" where
  "readFloat s0 =
     (if s0 = [] then None
      else
        let neg = (hd s0 = CHR ''-'');
            s1 = (if hd s0 = CHR ''+'' \<or> hd s0 = CHR ''-'' then tl s0 else s0);
            hex = (2 < length s1 \<and> has_prefix0 s1 [byte (CHR ''x'')]);
            base = (if hex then 16 else 10);
            (m, s2) = readFloat_digits base (if hex then drop 2 s1 else s1)
                        \<lparr>mant = 0, frac_digits = 0, sawdot = False, sawdigits = False,
                         underscores = False\<rparr>;
            sign = (if neg then - 1 else 1);
            scale = (if hex then 2 ^ (4 * frac_digits m) else 10 ^ frac_digits m)
        in if \<not> sawdigits m then None
           else if s2 \<noteq> [] \<and> lower (hd s2) = byte (if hex then CHR ''p'' else CHR ''e'') then
             (let s3 = tl s2;
                  eneg = (s3 \<noteq> [] \<and> hd s3 = CHR ''-'');
                  s4 = (if s3 \<noteq> [] \<and> (hd s3 = CHR ''+'' \<or> hd s3 = CHR ''-'') then tl s3 else s3)
              in if s4 = [] \<or> \<not> is_digit (hd s4) then None
                 else
                   let (e, u, s5) = readFloat_exp s4 0 False;
                       ebase = (if hex then 2 else 10)
                   in if s5 \<noteq> [] then None
                      else if (underscores m \<or> u) \<and> \<not> underscoreOK s0 then None
                      else Some (sign * of_int (mant m) / scale
                                  * (if eneg then 1 / ebase ^ e else ebase ^ e)))
           else if hex then None
           else if s2 \<noteq> [] then None
           else if underscores m \<and> \<not> underscoreOK s0 then None
           else Some (sign * of_int (mant m) / scale))"

text \<open>
  \<^verbatim>\<open>ParseFloat(s, 64)\<close>: the nearest \<^verbatim>\<open>float64\<close> of the literal; a syntax error
  where \<open>s\<close> is not a literal, a range error where the nearest \<^verbatim>\<open>float64\<close> is an
  infinity.
\<close>

definition ParseFloat :: "string \<Rightarrow> error + float64" where
  "ParseFloat s =
     (case special s of
        Some f \<Rightarrow> Inr f
      | None \<Rightarrow>
          (case readFloat s of
             None \<Rightarrow> Inl (syntaxError ''ParseFloat'' s)
           | Some v \<Rightarrow>
               (case round_f64 v of
                  Finite x \<Rightarrow> Inr (Finite x)
                | _ \<Rightarrow> Inl (rangeError ''ParseFloat'' s))))"

section \<open>Packages strings, unicode and utf8\<close>

subsection \<open>Split\<close>

text \<open>
  \<^verbatim>\<open>strings.Split(s, sep)\<close> for a separator of one byte, which is what the program
  passes: the pieces of \<open>s\<close> between the separators, one more than there are
  separators, so never an empty slice.
\<close>

fun Split_from :: "char \<Rightarrow> string \<Rightarrow> string \<Rightarrow> string list" where
  "Split_from sep piece [] = [piece]"
| "Split_from sep piece (c # cs) =
     (if c = sep then piece # Split_from sep [] cs else Split_from sep (piece @ [c]) cs)"

definition Split :: "string \<Rightarrow> char \<Rightarrow> string list" where
  "Split s sep = Split_from sep [] s"

subsection \<open>TrimSpace\<close>

text \<open>
  \<^verbatim>\<open>strings.TrimSpace\<close> removes all leading and trailing white space, as Unicode
  defines it (\<^verbatim>\<open>unicode.IsSpace\<close>): the six ASCII characters tab, line feed, vertical
  tab, form feed, carriage return and space, and U+0085, U+00A0, U+1680, U+2000 to
  U+200A, U+2028, U+2029, U+202F, U+205F and U+3000, each in its UTF-8 encoding.
\<close>

definition space_encodings :: "string list" where
  "space_encodings =
     [[CHR 0x09], [CHR 0x0A], [CHR 0x0B], [CHR 0x0C], [CHR 0x0D], [CHR 0x20],
      [CHR 0xC2, CHR 0x85], [CHR 0xC2, CHR 0xA0], [CHR 0xE1, CHR 0x9A, CHR 0x80],
      [CHR 0xE2, CHR 0x80, CHR 0x80], [CHR 0xE2, CHR 0x80, CHR 0x81],
      [CHR 0xE2, CHR 0x80, CHR 0x82], [CHR 0xE2, CHR 0x80, CHR 0x83],
      [CHR 0xE2, CHR 0x80, CHR 0x84], [CHR 0xE2, CHR 0x80, CHR 0x85],
      [CHR 0xE2, CHR 0x80, CHR 0x86], [CHR 0xE2, CHR 0x80, CHR 0x87],
      [CHR 0xE2, CHR 0x80, CHR 0x88], [CHR 0xE2, CHR 0x80, CHR 0x89],
      [CHR 0xE2, CHR 0x80, CHR 0x8A], [CHR 0xE2, CHR 0x80, CHR 0xA8],
      [CHR 0xE2, CHR 0x80, CHR 0xA9], [CHR 0xE2, CHR 0x80, CHR 0xAF],
      [CHR 0xE2, CHR 0x81, CHR 0x9F], [CHR 0xE3, CHR 0x80, CHR 0x80]]"

definition is_prefix :: "string \<Rightarrow> string \<Rightarrow> bool" where
  "is_prefix p s = (take (length p) s = p)"

text \<open>The number of bytes of the white-space character that \<open>s\<close> starts with, or 0.\<close>

definition leading_space :: "string list \<Rightarrow> string \<Rightarrow> nat" where
  "leading_space encs s =
     (case filter (\<lambda>e. is_prefix e s) encs of [] \<Rightarrow> 0 | e # _ \<Rightarrow> length e)"

fun TrimLeft :: "string list \<Rightarrow> nat \<Rightarrow> string \<Rightarrow> string" where
  "TrimLeft encs 0 s = s"
| "TrimLeft encs (Suc fuel) s =
     (if leading_space encs s = 0 then s else TrimLeft encs fuel (drop (leading_space encs s) s))"

definition TrimSpace :: "string \<Rightarrow> string" where
  "TrimSpace s =
     (let l = TrimLeft space_encodings (length s) s
      in rev (TrimLeft (map rev space_encodings) (length l) (rev l)))"

subsection \<open>Ranging over a string\<close>

text \<open>
  \<^verbatim>\<open>for _, c := range s\<close> decodes \<open>s\<close> as UTF-8, one code point at a time; a byte
  that starts no valid encoding yields U+FFFD and is one byte wide.
  \<open>DecodeRune\<close> returns the code point and its width.
\<close>

definition RuneError :: nat where
  "RuneError = 65533"

definition cont :: "nat \<Rightarrow> nat \<Rightarrow> char \<Rightarrow> bool" where
  "cont lo hi c = (lo \<le> byte c \<and> byte c \<le> hi)"

definition second_lo :: "nat \<Rightarrow> nat" where
  "second_lo b0 = (if b0 = 224 then 160 else if b0 = 240 then 144 else 128)"

definition second_hi :: "nat \<Rightarrow> nat" where
  "second_hi b0 = (if b0 = 237 then 159 else if b0 = 244 then 143 else 191)"

fun DecodeRune :: "string \<Rightarrow> nat \<times> nat" where
  "DecodeRune [] = (RuneError, 0)"
| "DecodeRune (c0 # cs) =
     (let b0 = byte c0 in
      if b0 < 128 then (b0, 1)
      else if 194 \<le> b0 \<and> b0 \<le> 223 then
        (case cs of
           c1 # _ \<Rightarrow>
             if cont 128 191 c1 then ((b0 - 192) * 64 + (byte c1 - 128), 2) else (RuneError, 1)
         | _ \<Rightarrow> (RuneError, 1))
      else if 224 \<le> b0 \<and> b0 \<le> 239 then
        (case cs of
           c1 # c2 # _ \<Rightarrow>
             if cont (second_lo b0) (second_hi b0) c1 \<and> cont 128 191 c2
             then ((b0 - 224) * 4096 + (byte c1 - 128) * 64 + (byte c2 - 128), 3)
             else (RuneError, 1)
         | _ \<Rightarrow> (RuneError, 1))
      else if 240 \<le> b0 \<and> b0 \<le> 244 then
        (case cs of
           c1 # c2 # c3 # _ \<Rightarrow>
             if cont (second_lo b0) (second_hi b0) c1 \<and> cont 128 191 c2 \<and> cont 128 191 c3
             then ((b0 - 240) * 262144 + (byte c1 - 128) * 4096 + (byte c2 - 128) * 64
                     + (byte c3 - 128), 4)
             else (RuneError, 1)
         | _ \<Rightarrow> (RuneError, 1))
      else (RuneError, 1))"

fun runes_fuel :: "nat \<Rightarrow> string \<Rightarrow> nat list" where
  "runes_fuel 0 s = []"
| "runes_fuel (Suc fuel) s =
     (if s = [] then [] else fst (DecodeRune s) # runes_fuel fuel (drop (snd (DecodeRune s)) s))"

text \<open>Every step consumes at least one byte, so \<open>length s\<close> steps reach the end.\<close>

definition runes :: "string \<Rightarrow> nat list" where
  "runes s = runes_fuel (length s) s"

subsection \<open>IsLetter and IsDigit\<close>

text \<open>
  Up to U+00FF the two predicates are fixed by the Latin-1 table of package
  \<^verbatim>\<open>unicode\<close>; above, by the range tables of the platform.
\<close>

definition latin1_letter :: "nat \<Rightarrow> bool" where
  "latin1_letter r =
     ((65 \<le> r \<and> r \<le> 90) \<or> (97 \<le> r \<and> r \<le> 122) \<or> r = 170 \<or> r = 181 \<or> r = 186
      \<or> (192 \<le> r \<and> r \<le> 214) \<or> (216 \<le> r \<and> r \<le> 246) \<or> (248 \<le> r \<and> r \<le> 255))"

definition IsLetter :: "platform \<Rightarrow> nat \<Rightarrow> bool" where
  "IsLetter pf r = (if r \<le> 255 then latin1_letter r else unicode_Letter pf r)"

definition IsDigit :: "platform \<Rightarrow> nat \<Rightarrow> bool" where
  "IsDigit pf r = (if r \<le> 255 then 48 \<le> r \<and> r \<le> 57 else unicode_Digit pf r)"

section \<open>The receipt model\<close>

record Item =
  ShortDescription :: string
  Price :: string

record PostReceiptJSON =
  Retailer :: string
  PurchaseDate :: string
  PurchaseTime :: string
  Total :: string
  Items :: "Item list"

text \<open>A \<^verbatim>\<open>uuid.UUID\<close> is an array of 16 bytes: a value of 128 bits.\<close>

type_synonym UUID = "128 word"

text \<open>\<^verbatim>\<open>StorageReceipt\<close> embeds \<^verbatim>\<open>PostReceiptJSON\<close> and adds the identifier.\<close>

record StorageReceipt = PostReceiptJSON +
  Id :: UUID

text \<open>The composite literal \<^verbatim>\<open>StorageReceipt{Id: id, PostReceiptJSON: p}\<close>.\<close>

definition new_StorageReceipt :: "UUID \<Rightarrow> PostReceiptJSON \<Rightarrow> StorageReceipt" where
  "new_StorageReceipt ident p =
     \<lparr>Retailer = Retailer p, PurchaseDate = PurchaseDate p, PurchaseTime = PurchaseTime p,
      Total = Total p, Items = Items p, Id = ident\<rparr>"

section \<open>findPoints\<close>

text \<open>
  What a call of \<^verbatim>\<open>findPoints\<close> does: it returns an \<^verbatim>\<open>int\<close> and an
  \<^verbatim>\<open>error\<close> (\<open>None\<close> for \<^verbatim>\<open>nil\<close>), or it panics. What it prints on the
  standard output is not part of the model. The running total, \<^verbatim>\<open>total\<close> in the
  source, is \<open>tot\<close> here (\<open>total\<close> is a constant of HOL).
\<close>

datatype result = Returns go_int "error option" | Panics

text \<open>Rule 1 (lines 178 to 183): the loop over the code points of the retailer.\<close>

fun findPoints_rule_1 :: "platform \<Rightarrow> nat list \<Rightarrow> go_int \<Rightarrow> go_int" where
  "findPoints_rule_1 pf [] count = count"
| "findPoints_rule_1 pf (c # cs) count =
     findPoints_rule_1 pf cs (if IsLetter pf c \<or> IsDigit pf c then count + 1 else count)"

text \<open>Rules 2 and 3 (lines 191 to 199), on the parsed total.\<close>

definition findPoints_rules_2_3 :: "float64 \<Rightarrow> go_int \<Rightarrow> go_int" where
  "findPoints_rules_2_3 totalPrice tot0 =
     (let tot = (if f64_eq totalPrice (Floor totalPrice) then tot0 + 50 else tot0);
          tot = (if f64_eq (Mod totalPrice const_0_25) (Finite 0) then tot + 25 else tot)
      in tot)"

text \<open>Rule 4 (lines 202 to 204).\<close>

definition findPoints_rule_4 :: "platform \<Rightarrow> Item list \<Rightarrow> go_int \<Rightarrow> go_int" where
  "findPoints_rule_4 pf items tot =
     (let numItems = word_of_nat (length items);
          m = Floor (f64_div (float64_of_int numItems) (Finite 2))
      in tot + int_of_float64 pf (f64_mul m (Finite 5)))"

text \<open>
  Rule 5 (lines 207 to 218): the loop over the items. \<open>Inl err\<close> is the early
  \<^verbatim>\<open>return 0, err\<close>; \<open>Inr tot\<close> is the running total after the loop.
\<close>

fun findPoints_rule_5 :: "platform \<Rightarrow> Item list \<Rightarrow> go_int \<Rightarrow> error + go_int" where
  "findPoints_rule_5 pf [] tot = Inr tot"
| "findPoints_rule_5 pf (item # items) tot =
     (let trimmedDesc = TrimSpace (ShortDescription item) in
      if length trimmedDesc mod 3 = 0 then
        (case ParseFloat (Price item) of
           Inl err \<Rightarrow> Inl err
         | Inr itemPrice \<Rightarrow>
             (let earnedPts = Ceil (f64_mul itemPrice const_0_2)
              in findPoints_rule_5 pf items (tot + int_of_float64 pf earnedPts)))
      else findPoints_rule_5 pf items tot)"

text \<open>Rule 6 (lines 221 to 233). \<^verbatim>\<open>%\<close> truncates: the remainder has the sign of the dividend.\<close>

definition findPoints_rule_6 :: "string \<Rightarrow> go_int \<Rightarrow> error + go_int" where
  "findPoints_rule_6 purchaseDate tot =
     (let splitStrs = Split purchaseDate (CHR ''-'') in
      if length splitStrs \<noteq> 3
      then Inl (ErrorString ''invalid date. Must follow the YYYY-MM-DD scheme'')
      else
        let date = splitStrs ! 2 in
        case Atoi date of
          Inl err \<Rightarrow> Inl err
        | Inr dateNum \<Rightarrow> Inr (if sint dateNum smod 2 = 1 then tot + 6 else tot))"

text \<open>
  Rule 7 and the final return (lines 236 to 252). \<^verbatim>\<open>timeSplit[0]\<close> and
  \<^verbatim>\<open>timeSplit[1]\<close> are indexed with no check of the length: an index out of range
  panics.
\<close>

definition findPoints_rule_7 :: "string \<Rightarrow> go_int \<Rightarrow> result" where
  "findPoints_rule_7 purchaseTime tot =
     (let timeSplit = Split purchaseTime (CHR '':'') in
      if length timeSplit \<le> 0 then Panics
      else
        case Atoi (timeSplit ! 0) of
          Inl err \<Rightarrow> Returns 0 (Some err)
        | Inr hrs \<Rightarrow>
            if length timeSplit \<le> 1 then Panics
            else
              case Atoi (timeSplit ! 1) of
                Inl err \<Rightarrow> Returns 0 (Some err)
              | Inr mins \<Rightarrow>
                  if hrs = 14 \<and> mins = 0 then Returns tot None
                  else if 14 \<le>s hrs \<and> hrs <s 16 then Returns (tot + 10) None
                  else Returns tot None)"

text \<open>
  Lines 175 to 233: rules 1 to 6. \<open>Inl err\<close> is an early \<^verbatim>\<open>return 0, err\<close>,
  \<open>Inr tot\<close> the running total with which rule 7 is entered.
\<close>

definition findPoints_rules_1_to_6 :: "platform \<Rightarrow> StorageReceipt \<Rightarrow> error + go_int" where
  "findPoints_rules_1_to_6 pf re =
     (let tot = 0;
          count = findPoints_rule_1 pf (runes (Retailer re)) 0;
          tot = tot + count
      in case ParseFloat (Total re) of
           Inl err \<Rightarrow> Inl err
         | Inr totalPrice \<Rightarrow>
             (let tot = findPoints_rules_2_3 totalPrice tot;
                  tot = findPoints_rule_4 pf (Items re) tot
              in case findPoints_rule_5 pf (Items re) tot of
                   Inl err \<Rightarrow> Inl err
                 | Inr tot \<Rightarrow> findPoints_rule_6 (PurchaseDate re) tot))"

definition findPoints :: "platform \<Rightarrow> StorageReceipt \<Rightarrow> result" where
  "findPoints pf re =
     (case findPoints_rules_1_to_6 pf re of
        Inl err \<Rightarrow> Returns 0 (Some err)
      | Inr tot \<Rightarrow> findPoints_rule_7 (PurchaseTime re) tot)"

section \<open>The handlers\<close>

text \<open>
  \<^verbatim>\<open>ReceiptHandler\<close> holds the stored receipts. Every handler takes the mutex
  \<^verbatim>\<open>mu\<close> before it reads or writes \<^verbatim>\<open>Receipts\<close> and holds it until it returns
  (the unlock is deferred, so it also runs when the handler panics): the handlers'
  accesses to the store are serialised, and a handler is a function from the store
  before to the store after.
\<close>

record ReceiptHandler =
  Receipts :: "StorageReceipt list"

definition NewReceiptHandler :: ReceiptHandler where
  "NewReceiptHandler = \<lparr>Receipts = []\<rparr>"

text \<open>
  The \<^verbatim>\<open>http.ResponseWriter\<close> of a request: the calls the handler has made on it, in
  order, and the error its \<^verbatim>\<open>Write\<close> returns (\<open>None\<close> on a sound connection).
  Without a \<^verbatim>\<open>WriteHeader\<close> before the first \<^verbatim>\<open>Write\<close> the status of the
  response is 200.
\<close>

datatype call = WriteHeader nat | Write string

record ResponseWriter =
  calls :: "call list"
  write_error :: "error option"

definition rw_WriteHeader :: "ResponseWriter \<Rightarrow> nat \<Rightarrow> ResponseWriter" where
  "rw_WriteHeader w code = w\<lparr>calls := calls w @ [WriteHeader code]\<rparr>"

definition rw_Write :: "ResponseWriter \<Rightarrow> string \<Rightarrow> ResponseWriter \<times> error option" where
  "rw_Write w b = (w\<lparr>calls := calls w @ [Write b]\<rparr>, write_error w)"

fun response_status :: "call list \<Rightarrow> nat" where
  "response_status [] = 200"
| "response_status (WriteHeader code # cs) = code"
| "response_status (Write b # cs) = 200"

fun response_body :: "call list \<Rightarrow> string" where
  "response_body [] = []"
| "response_body (WriteHeader code # cs) = response_body cs"
| "response_body (Write b # cs) = b @ response_body cs"

definition StatusBadRequest :: nat where
  "StatusBadRequest = 400"

definition StatusNotFound :: nat where
  "StatusNotFound = 404"

subsection \<open>Encoding the responses\<close>

function decimal :: "nat \<Rightarrow> string" where
  "decimal n = (if n < 10 then [char_of (48 + n)] else decimal (n div 10) @ [char_of (48 + n mod 10)])"
  by pat_completeness auto
termination
  by (relation "measure id") auto

declare decimal.simps [simp del]

definition Itoa :: "int \<Rightarrow> string" where
  "Itoa i = (if i < 0 then CHR ''-'' # decimal (nat (- i)) else decimal (nat i))"

text \<open>\<^verbatim>\<open>json.Marshal\<close> of the anonymous struct with the one field \<^verbatim>\<open>points\<close>; it cannot fail.\<close>

definition Marshal_points :: "go_int \<Rightarrow> string" where
  "Marshal_points points = ''{\"points\":'' @ Itoa (sint points) @ ''}''"

text \<open>
  \<^verbatim>\<open>UUID.String\<close>: the 32 hexadecimal digits of the 16 bytes, in lower case, in groups
  of 8, 4, 4, 4 and 12.
\<close>

definition hex_digit :: "nat \<Rightarrow> char" where
  "hex_digit n = ''0123456789abcdef'' ! n"

definition uuid_String :: "UUID \<Rightarrow> string" where
  "uuid_String u =
     (let h = map (\<lambda>i. hex_digit (unat (take_bit 4 (drop_bit (4 * (31 - i)) u)))) [0 ..< 32]
      in take 8 h @ ''-'' @ take 4 (drop 8 h) @ ''-'' @ take 4 (drop 12 h) @ ''-''
           @ take 4 (drop 16 h) @ ''-'' @ drop 20 h)"

definition Marshal_id :: "string \<Rightarrow> string" where
  "Marshal_id ident = ''{\"id\":\"'' @ ident @ ''\"}''"

subsection \<open>handleProcessReceipts\<close>

text \<open>
  The handler's inputs from outside the program: what decoding the request body as
  JSON gives, and what \<^verbatim>\<open>uuid.NewV7()\<close> gives when it is called.
\<close>

definition handleProcessReceipts ::
  "ReceiptHandler \<Rightarrow> ResponseWriter \<Rightarrow> error + PostReceiptJSON \<Rightarrow> error + UUID
     \<Rightarrow> ReceiptHandler \<times> ResponseWriter" where
  "handleProcessReceipts rh w decoded generated =
     (case decoded of
        Inl err \<Rightarrow>
          (let w = rw_WriteHeader w StatusBadRequest;
               (w, werr) = rw_Write w ''invalid receipt''
           in (rh, w))
      | Inr postReceipt \<Rightarrow>
          (case generated of
             Inl err \<Rightarrow> (rh, w)
           | Inr newUUID \<Rightarrow>
               (let storedData = new_StorageReceipt newUUID postReceipt;
                    rh = rh\<lparr>Receipts := Receipts rh @ [storedData]\<rparr>;
                    b = Marshal_id (uuid_String (Id storedData));
                    (w, werr) = rw_Write w b
                in (rh, w))))"

subsection \<open>handleGetReceiptPoints\<close>

text \<open>
  What a call of the handler does: it returns, or the panic of \<^verbatim>\<open>findPoints\<close>
  leaves it; either way with a store and with the calls made on the response writer.
\<close>

datatype handled = Handled ReceiptHandler ResponseWriter | HandlerPanics ReceiptHandler ResponseWriter

text \<open>The loop over the stored receipts (lines 119 to 145), and lines 147 to 151 after it.\<close>

fun handleGetReceiptPoints_loop ::
  "platform \<Rightarrow> ReceiptHandler \<Rightarrow> ResponseWriter \<Rightarrow> string \<Rightarrow> StorageReceipt list \<Rightarrow> handled" where
  "handleGetReceiptPoints_loop pf rh w idFromURL [] =
     (let w = rw_WriteHeader w StatusNotFound;
          (w, werr) = rw_Write w ''Id not found''
      in Handled rh w)"
| "handleGetReceiptPoints_loop pf rh w idFromURL (receipt # receipts) =
     (if idFromURL = uuid_String (Id receipt) then
        (case findPoints pf receipt of
           Panics \<Rightarrow> HandlerPanics rh w
         | Returns points err \<Rightarrow>
             (let b = Marshal_points points;
                  (w, werr) = rw_Write w b
              in Handled rh w))
      else handleGetReceiptPoints_loop pf rh w idFromURL receipts)"

definition handleGetReceiptPoints ::
  "platform \<Rightarrow> ReceiptHandler \<Rightarrow> ResponseWriter \<Rightarrow> string \<Rightarrow> handled" where
  "handleGetReceiptPoints pf rh w idFromURL =
     handleGetReceiptPoints_loop pf rh w idFromURL (Receipts rh)"

subsection \<open>The server\<close>

text \<open>
  A request is one of the two routes, with what the handler gets from outside. Each
  request has a response writer of its own. \<open>serve\<close> is the store after the request.
\<close>

datatype request =
    PostProcess "error + PostReceiptJSON" "error + UUID" "error option"
  | GetPoints string "error option"

definition new_writer :: "error option \<Rightarrow> ResponseWriter" where
  "new_writer werr = \<lparr>calls = [], write_error = werr\<rparr>"

fun store_of :: "handled \<Rightarrow> ReceiptHandler" where
  "store_of (Handled rh w) = rh"
| "store_of (HandlerPanics rh w) = rh"

fun serve :: "platform \<Rightarrow> ReceiptHandler \<Rightarrow> request \<Rightarrow> ReceiptHandler" where
  "serve pf rh (PostProcess decoded generated werr) =
     fst (handleProcessReceipts rh (new_writer werr) decoded generated)"
| "serve pf rh (GetPoints idFromURL werr) =
     store_of (handleGetReceiptPoints pf rh (new_writer werr) idFromURL)"

text \<open>
  Identifier generation yields fresh identifiers: the identifier a submission has
  generated is the identifier of no receipt in the store when the submission appends
  to it.
\<close>

fun fresh :: "ReceiptHandler \<Rightarrow> request \<Rightarrow> bool" where
  "fresh rh (PostProcess (Inr postReceipt) (Inr newUUID) werr) =
     (newUUID \<notin> set (map Id (Receipts rh)))"
| "fresh rh req = True"

text \<open>The states of the store the server can reach from the empty store.\<close>

inductive reachable :: "platform \<Rightarrow> ReceiptHandler \<Rightarrow> bool" for pf :: platform where
  reachable_init: "reachable pf NewReceiptHandler"
| reachable_serve: "reachable pf rh \<Longrightarrow> fresh rh req \<Longrightarrow> reachable pf (serve pf rh req)"

section \<open>Receipts and a platform for the examples\<close>

text \<open>The two receipts of \<^verbatim>\<open>TestPoint\<close>.\<close>

definition test_receipt_1 :: PostReceiptJSON where
  "test_receipt_1 =
     \<lparr>Retailer = ''Target'', PurchaseDate = ''2022-01-01'', PurchaseTime = ''13:01'',
      Total = ''35.35'',
      Items =
        [\<lparr>ShortDescription = ''Mountain Dew 12PK'', Price = ''6.49''\<rparr>,
         \<lparr>ShortDescription = ''Emils Cheese Pizza'', Price = ''12.25''\<rparr>,
         \<lparr>ShortDescription = ''Knorr Creamy Chicken'', Price = ''1.26''\<rparr>,
         \<lparr>ShortDescription = ''Doritos Nacho Cheese'', Price = ''3.35''\<rparr>,
         \<lparr>ShortDescription = ''   Klarbrunn 12-PK 12 FL OZ  '', Price = ''12.00''\<rparr>]\<rparr>"

definition test_receipt_2 :: PostReceiptJSON where
  "test_receipt_2 =
     \<lparr>Retailer = ''M&M Corner Market'', PurchaseDate = ''2022-03-20'', PurchaseTime = ''14:33'',
      Total = ''9.00'',
      Items =
        [\<lparr>ShortDescription = ''Gatorade'', Price = ''2.25''\<rparr>,
         \<lparr>ShortDescription = ''Gatorade'', Price = ''2.25''\<rparr>,
         \<lparr>ShortDescription = ''Gatorade'', Price = ''2.25''\<rparr>,
         \<lparr>ShortDescription = ''Gatorade'', Price = ''2.25''\<rparr>]\<rparr>"

text \<open>
  A receipt with no items, to which the examples add the items or the field they
  are about: rules 1 to 7 give it \<open>0 + 50 + 25 + 0 + 0 + 0 + 0\<close> points.
\<close>

definition plain_receipt :: StorageReceipt where
  "plain_receipt =
     \<lparr>Retailer = [], PurchaseDate = ''2022-01-02'', PurchaseTime = ''13:00'', Total = ''9.00'',
      Items = [], Id = 7\<rparr>"

text \<open>
  A platform for the closed examples: nothing above U+00FF is a letter or a digit, and
  a \<^verbatim>\<open>float64\<close> that does not fit converts to the smallest \<^verbatim>\<open>int\<close>. The
  examples are ASCII and in range, so they consult neither.
\<close>

definition example_platform :: platform where
  "example_platform =
     \<lparr>unicode_Letter = (\<lambda>r. False), unicode_Digit = (\<lambda>r. False),
      int_of_unrepresentable = (\<lambda>f. - (2 ^ 63))\<rparr>"

section \<open>Evaluation\<close>

lemma overflow_threshold_value [code]:
  "overflow_threshold =
     179769313486231590772930519078902473361797697894230657273430081157732675805500963132708477322407536021120113879871393357658789768814416622492847430639474124377767893424865485276302219601246094119453082952085005768838150682342462881473913110540827237163350510684586298239947245938479716304835356329624224137216"
  by (simp add: overflow_threshold_def pow2_def)

lemma const_0_2_value [code]: "const_0_2 = Finite (3602879701896397 / 18014398509481984)"
  by code_simp

text \<open>Rounding: the nearest binary64 number; a tie goes to the even significand.\<close>

lemma round_f64_tenth: "round_f64 (1 / 10) = Finite (3602879701896397 / 36028797018963968)"
  by code_simp

lemma round_f64_tie_down: "round_f64 9007199254740993 = Finite 9007199254740992"
  by code_simp

lemma round_f64_tie_up: "round_f64 9007199254740995 = Finite 9007199254740996"
  by code_simp

lemma ParseFloat_forms:
  "ParseFloat ''1e3'' = Inr (Finite 1000)"
  "ParseFloat ''0x1p-2'' = Inr (Finite (1 / 4))"
  "ParseFloat ''1_000.5'' = Inr (Finite (2001 / 2))"
  "ParseFloat ''-infinity'' = Inr NegInf"
  "ParseFloat ''1.2.3'' = Inl (NumError ''ParseFloat'' ''1.2.3'' ErrSyntax)"
  by code_simp+

lemma trunc_of_int: "trunc (of_int n) = n"
  by (simp add: trunc_def)

lemma int_of_float64_of_int:
  "- (2 ^ 63) \<le> n \<Longrightarrow> n < 2 ^ 63 \<Longrightarrow> int_of_float64 pf (Finite (of_int n)) = word_of_int n"
  by (simp add: trunc_of_int)

lemma int_of_float64_zero: "int_of_float64 pf (Finite 0) = 0"
  using int_of_float64_of_int [of 0 pf] by simp

lemmas [simp del] = int_of_float64.simps

lemma ParseFloat_35_35: "ParseFloat ''35.35'' = Inr (Finite (4975070213360845 / 140737488355328))"
  by code_simp

lemma ParseFloat_9_00: "ParseFloat ''9.00'' = Inr (Finite 9)"
  by code_simp

lemma ParseFloat_12_25: "ParseFloat ''12.25'' = Inr (Finite (49 / 4))"
  by code_simp

lemma ParseFloat_12_00: "ParseFloat ''12.00'' = Inr (Finite 12)"
  by code_simp

lemma ParseFloat_5_00: "ParseFloat ''5.00'' = Inr (Finite 5)"
  by code_simp

lemma ParseFloat_abc: "ParseFloat ''abc'' = Inl (NumError ''ParseFloat'' ''abc'' ErrSyntax)"
  by code_simp

lemma ParseFloat_Inf: "ParseFloat ''Inf'' = Inr PosInf"
  by code_simp

lemma points_12_25: "Ceil (f64_mul (Finite (49 / 4)) const_0_2) = Finite (of_int 3)"
  by code_simp

lemma points_12_00: "Ceil (f64_mul (Finite 12) const_0_2) = Finite (of_int 3)"
  by code_simp

lemma points_5_00: "Ceil (f64_mul (Finite 5) const_0_2) = Finite (of_int 1)"
  by code_simp

lemma pairs_of_5: "f64_mul (Floor (f64_div (float64_of_int 5) (Finite 2))) (Finite 5) = Finite (of_int 10)"
  by code_simp

lemma pairs_of_4: "f64_mul (Floor (f64_div (float64_of_int 4) (Finite 2))) (Finite 5) = Finite (of_int 10)"
  by code_simp

lemma pairs_of_1: "f64_mul (Floor (f64_div (float64_of_int 1) (Finite 2))) (Finite 5) = Finite (of_int 0)"
  by code_simp

lemma pairs_of_0: "f64_mul (Floor (f64_div (float64_of_int 0) (Finite 2))) (Finite 5) = Finite (of_int 0)"
  by code_simp

lemma rule_4_Nil: "findPoints_rule_4 pf [] tot = tot"
  by (simp add: findPoints_rule_4_def pairs_of_0 int_of_float64_zero)

lemma rule_4_single: "findPoints_rule_4 pf [item] tot = tot"
  by (simp add: findPoints_rule_4_def pairs_of_1 int_of_float64_zero)

lemma rules_2_3_35_35:
  "findPoints_rules_2_3 (Finite (4975070213360845 / 140737488355328)) tot = tot"
  by code_simp

lemma round_dollar_9: "f64_eq (Finite 9) (Floor (Finite 9))"
  by simp

lemma quarter_9: "f64_eq (Mod (Finite 9) const_0_25) (Finite 0)"
  by code_simp

lemma rules_2_3_9: "findPoints_rules_2_3 (Finite 9) tot = tot + 75"
  using round_dollar_9 quarter_9 by (simp add: findPoints_rules_2_3_def del: Floor.simps Mod.simps)

lemma rule_1_Nil: "findPoints_rule_1 pf (runes []) 0 = 0"
  by (simp add: runes_def)

lemma rule_1_Target: "findPoints_rule_1 pf (runes ''Target'') 0 = 6"
proof -
  have "runes ''Target'' = [84, 97, 114, 103, 101, 116]"
    by code_simp
  then show ?thesis
    by (simp add: IsLetter_def IsDigit_def latin1_letter_def)
qed

lemma rule_1_MM: "findPoints_rule_1 pf (runes ''M&M Corner Market'') 0 = 14"
proof -
  have "runes ''M&M Corner Market'' =
      [77, 38, 77, 32, 67, 111, 114, 110, 101, 114, 32, 77, 97, 114, 107, 101, 116]"
    by code_simp
  then show ?thesis
    by (simp add: IsLetter_def IsDigit_def latin1_letter_def)
qed

lemma Trim_1: "length (TrimSpace ''Mountain Dew 12PK'') mod 3 = 2" by code_simp
lemma Trim_2: "length (TrimSpace ''Emils Cheese Pizza'') mod 3 = 0" by code_simp
lemma Trim_3: "length (TrimSpace ''Knorr Creamy Chicken'') mod 3 = 2" by code_simp
lemma Trim_4: "length (TrimSpace ''Doritos Nacho Cheese'') mod 3 = 2" by code_simp
lemma Trim_5: "length (TrimSpace ''   Klarbrunn 12-PK 12 FL OZ  '') mod 3 = 0" by code_simp
lemma Trim_Gatorade: "length (TrimSpace ''Gatorade'') mod 3 = 2" by code_simp
lemma Trim_ab: "length (TrimSpace ''ab'') mod 3 = 2" by code_simp
lemma Trim_abc: "length (TrimSpace ''abc'') mod 3 = 0" by code_simp
lemma Trim_blank: "TrimSpace ''  '' = []" by code_simp

lemma rule_6_odd: "findPoints_rule_6 ''2022-01-01'' tot = Inr (tot + 6)"
  by code_simp

lemma rule_6_even: "findPoints_rule_6 ''2022-03-20'' tot = Inr tot"
  by code_simp

lemma rule_6_02: "findPoints_rule_6 ''2022-01-02'' tot = Inr tot"
  by code_simp

lemma rule_7_13_00: "findPoints_rule_7 ''13:00'' tot = Returns tot None"
  by code_simp

lemma rule_7_13_01: "findPoints_rule_7 ''13:01'' tot = Returns tot None"
  by code_simp

lemma rule_7_14_33: "findPoints_rule_7 ''14:33'' tot = Returns (tot + 10) None"
  by code_simp

lemma rules_1_to_6_test_receipt_1:
  "findPoints_rules_1_to_6 pf (new_StorageReceipt ident test_receipt_1) = Inr 28"
  by (simp add: findPoints_rules_1_to_6_def new_StorageReceipt_def test_receipt_1_def
      findPoints_rule_4_def rule_1_Target ParseFloat_35_35 rules_2_3_35_35 pairs_of_5
      Trim_1 Trim_2 Trim_3 Trim_4 Trim_5 ParseFloat_12_25 ParseFloat_12_00 points_12_25
      points_12_00 int_of_float64_of_int rule_6_odd del: of_int_numeral)

lemma rules_1_to_6_test_receipt_2:
  "findPoints_rules_1_to_6 pf (new_StorageReceipt ident test_receipt_2) = Inr 99"
  by (simp add: findPoints_rules_1_to_6_def new_StorageReceipt_def test_receipt_2_def
      findPoints_rule_4_def rule_1_MM ParseFloat_9_00 rules_2_3_9 pairs_of_4
      Trim_Gatorade int_of_float64_of_int rule_6_even del: of_int_numeral)

lemma rules_1_to_6_plain_receipt: "findPoints_rules_1_to_6 pf plain_receipt = Inr 75"
  by (simp add: findPoints_rules_1_to_6_def plain_receipt_def rule_1_Nil ParseFloat_9_00
      rules_2_3_9 rule_4_Nil rule_6_02 del: of_int_numeral)

section \<open>The scores of the two test receipts\<close>

text \<open>
  C1: for the receipt of retailer Target (five items, total 35.35, bought on 2022-01-01 at
  13:01) \<open>findPoints\<close> returns 28 and no error; for the receipt of M&M Corner Market
  (four items Gatorade, total 9.00, bought on 2022-03-20 at 14:33) it returns 109 and no
  error. This is what \<^verbatim>\<open>TestPoint\<close> asserts; it holds on every platform and for every
  identifier of the two receipts.
\<close>

theorem TestPoint_scores:
  "findPoints pf (new_StorageReceipt uuid1 test_receipt_1) = Returns 28 None
   \<and> findPoints pf (new_StorageReceipt uuid2 test_receipt_2) = Returns 109 None"
proof -
  have "PurchaseTime (new_StorageReceipt uuid1 test_receipt_1) = ''13:01''"
    "PurchaseTime (new_StorageReceipt uuid2 test_receipt_2) = ''14:33''"
    by (simp_all add: new_StorageReceipt_def test_receipt_1_def test_receipt_2_def)
  then show ?thesis
    by (simp add: findPoints_def rules_1_to_6_test_receipt_1 rules_1_to_6_test_receipt_2
        rule_7_13_01 rule_7_14_33)
qed

section \<open>Errors carry the score 0\<close>

lemma findPoints_rule_7_error_score:
  "findPoints_rule_7 purchaseTime tot = Returns score (Some err) \<Longrightarrow> score = 0"
  by (auto simp: findPoints_rule_7_def Let_def split: if_splits sum.splits)

lemma findPoints_error_score:
  "findPoints pf re = Returns score (Some err) \<Longrightarrow> score = 0"
  by (auto simp: findPoints_def split: sum.splits dest: findPoints_rule_7_error_score)

lemma findPoints_bad_total:
  "findPoints pf (plain_receipt\<lparr>Total := ''abc''\<rparr>)
     = Returns 0 (Some (NumError ''ParseFloat'' ''abc'' ErrSyntax))"
  by (simp add: findPoints_def findPoints_rules_1_to_6_def plain_receipt_def ParseFloat_abc)

lemma rules_1_to_6_PurchaseTime:
  "findPoints_rules_1_to_6 pf (re\<lparr>PurchaseTime := t\<rparr>) = findPoints_rules_1_to_6 pf re"
  by (simp add: findPoints_rules_1_to_6_def Let_def split: sum.splits)

lemma findPoints_at_time:
  "findPoints_rules_1_to_6 pf re = Inr tot \<Longrightarrow>
   findPoints pf (re\<lparr>PurchaseTime := t\<rparr>) = findPoints_rule_7 t tot"
  by (simp add: findPoints_def rules_1_to_6_PurchaseTime)

lemma rule_7_14_xx:
  "findPoints_rule_7 ''14:xx'' tot = Returns 0 (Some (NumError ''Atoi'' ''xx'' ErrSyntax))"
  by code_simp

text \<open>
  C8: whenever \<open>findPoints\<close> returns an error, the score it returns with it is 0,
  whatever the rules before the failing one had added to the running total.
\<close>

theorem findPoints_error_returns_zero:
  "findPoints pf re = Returns score (Some err) \<Longrightarrow> score = 0"
proof -
  assume ret: "findPoints pf re = Returns score (Some err)"
  show "score = 0"
  proof (cases "findPoints_rules_1_to_6 pf re")
    case (Inl e)
    with ret show ?thesis
      by (simp add: findPoints_def)
  next
    case (Inr tot)
    with ret have "findPoints_rule_7 (PurchaseTime re) tot = Returns score (Some err)"
      by (simp add: findPoints_def)
    then show ?thesis
      by (rule findPoints_rule_7_error_score)
  qed
qed

text \<open>
  The second test receipt with the purchase time \<^verbatim>\<open>14:xx\<close>: rules 1 to 6 have brought
  the running total to 99 when the minutes fail to parse, and the score returned with
  the error is 0.
\<close>

theorem findPoints_error_returns_zero_witness:
  "findPoints_rules_1_to_6 example_platform (new_StorageReceipt 1 test_receipt_2) = Inr 99
   \<and> findPoints example_platform
        ((new_StorageReceipt 1 test_receipt_2)\<lparr>PurchaseTime := ''14:xx''\<rparr>)
       = Returns 0 (Some (NumError ''Atoi'' ''xx'' ErrSyntax))"
proof -
  have acc: "findPoints_rules_1_to_6 example_platform (new_StorageReceipt 1 test_receipt_2) = Inr 99"
    by (rule rules_1_to_6_test_receipt_2)
  have "\<exists>score. findPoints example_platform
        ((new_StorageReceipt 1 test_receipt_2)\<lparr>PurchaseTime := ''14:xx''\<rparr>)
       = Returns score (Some (NumError ''Atoi'' ''xx'' ErrSyntax))"
    by (simp add: findPoints_at_time [OF acc] rule_7_14_xx)
  then obtain score where ret: "findPoints example_platform
        ((new_StorageReceipt 1 test_receipt_2)\<lparr>PurchaseTime := ''14:xx''\<rparr>)
       = Returns score (Some (NumError ''Atoi'' ''xx'' ErrSyntax))" ..
  from findPoints_error_returns_zero [OF ret] ret acc show ?thesis
    by simp
qed

section \<open>The purchase time\<close>

lemma rule_7_14_00: "findPoints_rule_7 ''14:00'' tot = Returns tot None"
  by code_simp

lemma rule_7_14_01: "findPoints_rule_7 ''14:01'' tot = Returns (tot + 10) None"
  by code_simp

lemma rule_7_15_59: "findPoints_rule_7 ''15:59'' tot = Returns (tot + 10) None"
  by code_simp

lemma rule_7_16_00: "findPoints_rule_7 ''16:00'' tot = Returns tot None"
  by code_simp

lemma rule_7_13: "findPoints_rule_7 ''13'' tot = Panics"
  by code_simp

lemma rule_7_13_01_05: "findPoints_rule_7 ''13:01:05'' tot = Returns tot None"
  by code_simp

lemma rule_7_parsed:
  "Split t (CHR '':'') = h # m # rest \<Longrightarrow> Atoi h = Inr hrs \<Longrightarrow> Atoi m = Inr mins \<Longrightarrow>
   findPoints_rule_7 t tot =
     Returns (if (14 \<le>s hrs \<and> hrs <s 16) \<and> \<not> (hrs = 14 \<and> mins = 0) then tot + 10 else tot) None"
  by (simp add: findPoints_rule_7_def)

lemma Split_from_nonempty: "Split_from sep piece s \<noteq> []"
  by (induction s arbitrary: piece) auto

lemma Split_nonempty: "Split s sep \<noteq> []"
  by (simp add: Split_def Split_from_nonempty)

text \<open>
  \<open>findPoints\<close> panics in one case only: rules 1 to 6 succeed, the purchase time has
  no colon, and it is an integer.
\<close>

lemma findPoints_rule_7_panics_iff:
  "findPoints_rule_7 purchaseTime tot = Panics
   \<longleftrightarrow> (\<exists>h hrs. Split purchaseTime (CHR '':'') = [h] \<and> Atoi h = Inr hrs)"
proof (cases "Split purchaseTime (CHR '':'')")
  case Nil
  then show ?thesis
    by (simp add: Split_nonempty)
next
  case (Cons h rest)
  then show ?thesis
    by (cases rest) (auto simp: findPoints_rule_7_def Let_def split: sum.splits if_splits)
qed

lemma findPoints_panics_iff:
  "findPoints pf re = Panics
   \<longleftrightarrow> (\<exists>tot h hrs. findPoints_rules_1_to_6 pf re = Inr tot
         \<and> Split (PurchaseTime re) (CHR '':'') = [h] \<and> Atoi h = Inr hrs)"
  by (auto simp: findPoints_def findPoints_rule_7_panics_iff split: sum.splits)

text \<open>
  C2 says that a purchase time which does not split into exactly two components makes
  \<open>findPoints\<close> return a parsing error. The code does not check the number of
  components (it does for the date): with one component that is an integer it panics
  on \<^verbatim>\<open>timeSplit[1]\<close>, and with three components it ignores the third and returns a
  score. Both on the second test receipt, whose total, prices and date parse.
\<close>

theorem findPoints_time_components:
  "findPoints pf (new_StorageReceipt ident (test_receipt_2\<lparr>PurchaseTime := ''13''\<rparr>)) = Panics
   \<and> findPoints pf (new_StorageReceipt ident (test_receipt_2\<lparr>PurchaseTime := ''13:01:05''\<rparr>))
       = Returns 99 None"
proof -
  have upd: "new_StorageReceipt ident (test_receipt_2\<lparr>PurchaseTime := t\<rparr>)
      = (new_StorageReceipt ident test_receipt_2)\<lparr>PurchaseTime := t\<rparr>" for t
    by (simp add: new_StorageReceipt_def)
  show ?thesis
    by (simp add: upd findPoints_at_time [OF rules_1_to_6_test_receipt_2] rule_7_13
        rule_7_13_01_05)
qed

text \<open>
  C5: for a receipt on which rules 1 to 6 succeed with the running total \<open>tot\<close>,
  the afternoon rule adds 0 at 14:00, 10 at 14:01, 10 at 15:59 and 0 at 16:00; in
  general, with the hour and the minute parsed, it adds 10 exactly when the hour is at
  least 14 and less than 16 and the time is not 14:00.
\<close>

theorem afternoon_window:
  "findPoints_rules_1_to_6 pf re = Inr tot \<Longrightarrow>
   findPoints pf (re\<lparr>PurchaseTime := ''14:00''\<rparr>) = Returns tot None
   \<and> findPoints pf (re\<lparr>PurchaseTime := ''14:01''\<rparr>) = Returns (tot + 10) None
   \<and> findPoints pf (re\<lparr>PurchaseTime := ''15:59''\<rparr>) = Returns (tot + 10) None
   \<and> findPoints pf (re\<lparr>PurchaseTime := ''16:00''\<rparr>) = Returns tot None
   \<and> (\<forall>t h m rest hrs mins.
         Split t (CHR '':'') = h # m # rest \<and> Atoi h = Inr hrs \<and> Atoi m = Inr mins \<longrightarrow>
         findPoints pf (re\<lparr>PurchaseTime := t\<rparr>)
           = Returns (if (14 \<le>s hrs \<and> hrs <s 16) \<and> \<not> (hrs = 14 \<and> mins = 0)
                      then tot + 10 else tot) None)"
  by (simp add: findPoints_at_time rule_7_14_00 rule_7_14_01 rule_7_15_59 rule_7_16_00
      rule_7_parsed)

theorem afternoon_window_witness:
  "findPoints_rules_1_to_6 example_platform (new_StorageReceipt 1 test_receipt_2) = Inr 99
   \<and> findPoints example_platform ((new_StorageReceipt 1 test_receipt_2)\<lparr>PurchaseTime := ''14:00''\<rparr>)
       = Returns 99 None
   \<and> findPoints example_platform ((new_StorageReceipt 1 test_receipt_2)\<lparr>PurchaseTime := ''14:01''\<rparr>)
       = Returns 109 None
   \<and> findPoints example_platform ((new_StorageReceipt 1 test_receipt_2)\<lparr>PurchaseTime := ''15:59''\<rparr>)
       = Returns 109 None
   \<and> findPoints example_platform ((new_StorageReceipt 1 test_receipt_2)\<lparr>PurchaseTime := ''16:00''\<rparr>)
       = Returns 99 None"
  using afternoon_window [OF rules_1_to_6_test_receipt_2 [of example_platform 1]]
    rules_1_to_6_test_receipt_2 [of example_platform 1]
  by simp

section \<open>The prices of the items\<close>

lemma ParseFloat_error_is_NumError:
  "ParseFloat s = Inl err \<Longrightarrow> \<exists>k. err = NumError ''ParseFloat'' s k"
  by (auto simp: ParseFloat_def syntaxError_def rangeError_def
      split: option.splits float64.splits)

lemma rule_5_invalid_price:
  "item \<in> set items \<Longrightarrow> length (TrimSpace (ShortDescription item)) mod 3 = 0 \<Longrightarrow>
   ParseFloat (Price item) = Inl err \<Longrightarrow>
   \<exists>num k. findPoints_rule_5 pf items tot = Inl (NumError ''ParseFloat'' num k)"
proof (induction items arbitrary: tot)
  case Nil
  then show ?case by simp
next
  case (Cons first items)
  show ?case
  proof (cases "length (TrimSpace (ShortDescription first)) mod 3 = 0")
    case False
    with Cons.prems have "item \<in> set items"
      by auto
    with Cons.IH Cons.prems False show ?thesis
      by simp
  next
    case True
    show ?thesis
    proof (cases "ParseFloat (Price first)")
      case (Inl e)
      with True ParseFloat_error_is_NumError [OF Inl] show ?thesis
        by auto
    next
      case (Inr itemPrice)
      with Cons.prems have "item \<in> set items"
        by auto
      with Cons.IH Cons.prems True Inr show ?thesis
        by simp
    qed
  qed
qed

lemma rule_5_skipped:
  "length (TrimSpace (ShortDescription item)) mod 3 \<noteq> 0 \<Longrightarrow>
   findPoints_rule_5 pf (item # items) tot = findPoints_rule_5 pf items tot"
  by simp

text \<open>
  C3 as stated fails: the price of an item is parsed only when the length of its trimmed
  description is a multiple of 3. A receipt whose one item is \<open>("ab", "abc")\<close> has an
  invalid price and a total that parses, and \<open>findPoints\<close> returns the score 75 and
  no error.
\<close>

theorem invalid_price_not_parsed:
  "ParseFloat (Total (plain_receipt\<lparr>Items := [\<lparr>ShortDescription = ''ab'', Price = ''abc''\<rparr>]\<rparr>))
     = Inr (Finite 9)
   \<and> ParseFloat ''abc'' = Inl (NumError ''ParseFloat'' ''abc'' ErrSyntax)
   \<and> findPoints example_platform
        (plain_receipt\<lparr>Items := [\<lparr>ShortDescription = ''ab'', Price = ''abc''\<rparr>]\<rparr>)
       = Returns 75 None"
proof -
  have "findPoints_rules_1_to_6 example_platform
      (plain_receipt\<lparr>Items := [\<lparr>ShortDescription = ''ab'', Price = ''abc''\<rparr>]\<rparr>) = Inr 75"
    by (simp add: findPoints_rules_1_to_6_def plain_receipt_def rule_1_Nil ParseFloat_9_00
        rules_2_3_9 rule_4_single rule_6_02 Trim_ab del: of_int_numeral)
  then show ?thesis
    using ParseFloat_9_00
    by (simp add: findPoints_def plain_receipt_def rule_7_13_00 ParseFloat_abc)
qed

text \<open>
  C3, amended: for every receipt whose total parses and that contains at least one item
  whose price is not a valid number and whose trimmed description has a length that is
  a multiple of 3, \<open>findPoints\<close> returns the score 0 and a parsing error of
  \<^verbatim>\<open>ParseFloat\<close>.
\<close>

theorem invalid_price_error:
  "ParseFloat (Total re) = Inr totalPrice \<Longrightarrow> item \<in> set (Items re) \<Longrightarrow>
   length (TrimSpace (ShortDescription item)) mod 3 = 0 \<Longrightarrow>
   ParseFloat (Price item) = Inl err \<Longrightarrow>
   \<exists>num k. findPoints pf re = Returns 0 (Some (NumError ''ParseFloat'' num k))"
proof -
  assume total: "ParseFloat (Total re) = Inr totalPrice"
    and item: "item \<in> set (Items re)"
      "length (TrimSpace (ShortDescription item)) mod 3 = 0"
      "ParseFloat (Price item) = Inl err"
  define tot where "tot = findPoints_rule_4 pf (Items re)
    (findPoints_rules_2_3 totalPrice (0 + findPoints_rule_1 pf (runes (Retailer re)) 0))"
  obtain num k where "findPoints_rule_5 pf (Items re) tot = Inl (NumError ''ParseFloat'' num k)"
    using rule_5_invalid_price [OF item] by blast
  with total have "findPoints_rules_1_to_6 pf re = Inl (NumError ''ParseFloat'' num k)"
    by (simp add: findPoints_rules_1_to_6_def tot_def)
  then show ?thesis
    by (simp add: findPoints_def)
qed

theorem invalid_price_error_witness:
  "ParseFloat (Total (plain_receipt\<lparr>Items := [\<lparr>ShortDescription = ''abc'', Price = ''abc''\<rparr>]\<rparr>))
     = Inr (Finite 9)
   \<and> length (TrimSpace ''abc'') mod 3 = 0
   \<and> ParseFloat ''abc'' = Inl (NumError ''ParseFloat'' ''abc'' ErrSyntax)
   \<and> (\<exists>num k. findPoints example_platform
          (plain_receipt\<lparr>Items := [\<lparr>ShortDescription = ''abc'', Price = ''abc''\<rparr>]\<rparr>)
         = Returns 0 (Some (NumError ''ParseFloat'' num k)))"
proof -
  let ?item = "\<lparr>ShortDescription = ''abc'', Price = ''abc''\<rparr>"
  let ?re = "plain_receipt\<lparr>Items := [?item]\<rparr>"
  have total: "ParseFloat (Total ?re) = Inr (Finite 9)"
    using ParseFloat_9_00 by (simp add: plain_receipt_def)
  have mem: "?item \<in> set (Items ?re)"
    by simp
  have len: "length (TrimSpace (ShortDescription ?item)) mod 3 = 0"
    by (simp add: Trim_abc)
  have price: "ParseFloat (Price ?item) = Inl (NumError ''ParseFloat'' ''abc'' ErrSyntax)"
    by (simp add: ParseFloat_abc)
  from invalid_price_error [OF total mem len price, of example_platform] total len price
  show ?thesis
    by simp
qed

section \<open>The total\<close>

lemma integral_quarter_multiple:
  "(of_int n :: rat) - of_int (trunc (of_int n / (1 / 4))) * (1 / 4) = 0"
proof -
  have "(of_int n :: rat) / (1 / 4) = of_int (4 * n)"
    by simp
  then have "trunc ((of_int n :: rat) / (1 / 4)) = 4 * n"
    by (simp only: trunc_of_int)
  then show ?thesis
    by simp
qed

text \<open>
  C10 as stated fails: the total \<^verbatim>\<open>Inf\<close> parses with no error, to the positive
  infinity, which equals its own floor, while its remainder modulo 0.25 is a NaN: the
  round-dollar bonus is awarded and the quarter-multiple bonus is not, so rules 2 and 3
  add 50 alone.
\<close>

theorem round_dollar_alone:
  "ParseFloat ''Inf'' = Inr PosInf
   \<and> f64_eq PosInf (Floor PosInf)
   \<and> \<not> f64_eq (Mod PosInf const_0_25) (Finite 0)
   \<and> findPoints_rules_2_3 PosInf 0 = 50
   \<and> findPoints example_platform (plain_receipt\<lparr>Total := ''Inf''\<rparr>) = Returns 50 None"
proof -
  have r23: "findPoints_rules_2_3 PosInf 0 = 50"
    by (simp add: findPoints_rules_2_3_def const_0_25_def)
  have "findPoints_rules_1_to_6 example_platform (plain_receipt\<lparr>Total := ''Inf''\<rparr>) = Inr 50"
    by (simp add: findPoints_rules_1_to_6_def plain_receipt_def rule_1_Nil ParseFloat_Inf
        r23 rule_4_Nil rule_6_02)
  then show ?thesis
    by (simp add: findPoints_def plain_receipt_def rule_7_13_00 ParseFloat_Inf r23
        const_0_25_def)
qed

lemma ParseFloat_NaN: "ParseFloat ''NaN'' = Inr NaN"
  by code_simp

lemma ParseFloat_minus_Infinity: "ParseFloat ''-Infinity'' = Inr NegInf"
  by code_simp

text \<open>
  The totals that parse to an infinity: \<^verbatim>\<open>inf\<close> and \<^verbatim>\<open>infinity\<close>, with an
  optional sign, in any mix of upper and lower case. A literal that rounds to an
  infinity is a range error.
\<close>

lemma ParseFloat_not_finite: "ParseFloat s = Inr x \<Longrightarrow> (\<forall>q. x \<noteq> Finite q) \<Longrightarrow> special s = Some x"
proof (cases "special s")
  case None
  assume parsed: "ParseFloat s = Inr x" and infinite: "\<forall>q. x \<noteq> Finite q"
  from parsed None obtain v where "readFloat s = Some v"
    by (cases "readFloat s") (simp_all add: ParseFloat_def)
  with parsed None infinite show ?thesis
    by (cases "round_f64 v") (auto simp add: ParseFloat_def)
next
  case (Some f)
  assume "ParseFloat s = Inr x"
  with Some show ?thesis
    by (simp add: ParseFloat_def)
qed

lemma ParseFloat_special: "special s = Some x \<Longrightarrow> ParseFloat s = Inr x"
  by (simp add: ParseFloat_def)

lemma special_infinite_iff:
  "special s = Some PosInf \<or> special s = Some NegInf
   \<longleftrightarrow> map ascii_lower s \<in> set [''inf'', ''infinity'', ''+inf'', ''+infinity'', ''-inf'', ''-infinity'']"
  by (auto simp: special_def Let_def)

lemma ParseFloat_infinite_iff:
  "ParseFloat s = Inr x \<Longrightarrow>
   (x = PosInf \<or> x = NegInf)
   \<longleftrightarrow> map ascii_lower s \<in> set [''inf'', ''infinity'', ''+inf'', ''+infinity'', ''-inf'', ''-infinity'']"
proof
  assume parsed: "ParseFloat s = Inr x" and inf: "x = PosInf \<or> x = NegInf"
  then have "special s = Some x"
    by (auto intro: ParseFloat_not_finite)
  with inf show "map ascii_lower s \<in> set [''inf'', ''infinity'', ''+inf'', ''+infinity'', ''-inf'', ''-infinity'']"
    using special_infinite_iff [of s] by auto
next
  assume parsed: "ParseFloat s = Inr x"
    and "map ascii_lower s \<in> set [''inf'', ''infinity'', ''+inf'', ''+infinity'', ''-inf'', ''-infinity'']"
  then have "special s = Some PosInf \<or> special s = Some NegInf"
    using special_infinite_iff [of s] by simp
  with parsed show "x = PosInf \<or> x = NegInf"
    by (auto dest: ParseFloat_special)
qed

lemma rules_2_3_infinite:
  "findPoints_rules_2_3 PosInf tot = tot + 50" "findPoints_rules_2_3 NegInf tot = tot + 50"
  by (simp_all add: findPoints_rules_2_3_def const_0_25_def)

lemma rules_2_3_NaN: "findPoints_rules_2_3 NaN tot = tot"
  by (simp add: findPoints_rules_2_3_def const_0_25_def)

lemma rules_2_3_finite:
  "(f64_eq (Finite x) (Floor (Finite x)) \<longrightarrow> f64_eq (Mod (Finite x) const_0_25) (Finite 0))
   \<and> (findPoints_rules_2_3 (Finite x) tot = tot
       \<or> findPoints_rules_2_3 (Finite x) tot = tot + 25
       \<or> findPoints_rules_2_3 (Finite x) tot = tot + 75)
   \<and> findPoints_rules_2_3 (Finite x) tot \<noteq> tot + 50"
proof -
  have quarter: "f64_eq (Mod (Finite x) const_0_25) (Finite 0)"
    if "f64_eq (Finite x) (Floor (Finite x))"
  proof -
    from that have "x = of_int \<lfloor>x\<rfloor>"
      by (simp only: Floor.simps f64_eq.simps)
    then obtain n where "x = of_int n" ..
    then show ?thesis
      using integral_quarter_multiple [of n] by (simp add: const_0_25_def)
  qed
  show ?thesis
  proof (cases "f64_eq (Finite x) (Floor (Finite x))")
    case True
    with quarter show ?thesis
      by (simp add: findPoints_rules_2_3_def del: f64_eq.simps Floor.simps Mod.simps)
  next
    case False
    then show ?thesis
      by (simp add: findPoints_rules_2_3_def del: f64_eq.simps Floor.simps Mod.simps)
  qed
qed

text \<open>
  C10, amended: for every receipt whose total parses to anything but an infinity (a
  finite number or a NaN), if the round-dollar bonus is awarded then so is the
  quarter-multiple bonus; rules 2 and 3 together add 0, 25 or 75 to the running total,
  never 50 alone. The totals that parse to an infinity are \<^verbatim>\<open>Inf\<close> and
  \<^verbatim>\<open>Infinity\<close>, with an optional sign, in any mix of upper and lower case, and no
  others; for them rules 2 and 3 add 50 alone.
\<close>

theorem round_dollar_implies_quarter:
  "ParseFloat (Total re) = Inr x \<Longrightarrow>
   (x \<noteq> PosInf \<and> x \<noteq> NegInf \<longrightarrow>
      (f64_eq x (Floor x) \<longrightarrow> f64_eq (Mod x const_0_25) (Finite 0))
      \<and> (findPoints_rules_2_3 x tot = tot
          \<or> findPoints_rules_2_3 x tot = tot + 25
          \<or> findPoints_rules_2_3 x tot = tot + 75)
      \<and> findPoints_rules_2_3 x tot \<noteq> tot + 50)
   \<and> (x = PosInf \<or> x = NegInf \<longrightarrow>
        f64_eq x (Floor x) \<and> \<not> f64_eq (Mod x const_0_25) (Finite 0)
        \<and> findPoints_rules_2_3 x tot = tot + 50)
   \<and> ((x = PosInf \<or> x = NegInf)
        \<longleftrightarrow> map ascii_lower (Total re)
              \<in> set [''inf'', ''infinity'', ''+inf'', ''+infinity'', ''-inf'', ''-infinity''])"
proof -
  assume parsed: "ParseFloat (Total re) = Inr x"
  have others: "(f64_eq x (Floor x) \<longrightarrow> f64_eq (Mod x const_0_25) (Finite 0))
      \<and> (findPoints_rules_2_3 x tot = tot
          \<or> findPoints_rules_2_3 x tot = tot + 25
          \<or> findPoints_rules_2_3 x tot = tot + 75)
      \<and> findPoints_rules_2_3 x tot \<noteq> tot + 50"
    if "x \<noteq> PosInf" "x \<noteq> NegInf"
  proof (cases x)
    case (Finite q)
    then show ?thesis
      using rules_2_3_finite [of q tot] by simp
  next
    case NaN
    then show ?thesis
      by (simp add: rules_2_3_NaN)
  qed (use that in simp_all)
  have infinite: "f64_eq x (Floor x) \<and> \<not> f64_eq (Mod x const_0_25) (Finite 0)
      \<and> findPoints_rules_2_3 x tot = tot + 50"
    if "x = PosInf \<or> x = NegInf"
    using that by (auto simp: rules_2_3_infinite const_0_25_def)
  from others infinite ParseFloat_infinite_iff [OF parsed] show ?thesis
    by blast
qed

theorem round_dollar_implies_quarter_witness:
  "ParseFloat (Total plain_receipt) = Inr (Finite 9)
   \<and> f64_eq (Finite 9) (Floor (Finite 9))
   \<and> f64_eq (Mod (Finite 9) const_0_25) (Finite 0)
   \<and> findPoints_rules_2_3 (Finite 9) 0 = 75
   \<and> ParseFloat (Total (plain_receipt\<lparr>Total := ''NaN''\<rparr>)) = Inr NaN
   \<and> findPoints_rules_2_3 NaN 0 = 0
   \<and> ParseFloat (Total (plain_receipt\<lparr>Total := ''-Infinity''\<rparr>)) = Inr NegInf
   \<and> findPoints_rules_2_3 NegInf 0 = 50"
proof -
  have nine: "ParseFloat (Total plain_receipt) = Inr (Finite 9)"
    using ParseFloat_9_00 by (simp add: plain_receipt_def)
  have nan: "ParseFloat (Total (plain_receipt\<lparr>Total := ''NaN''\<rparr>)) = Inr NaN"
    by (simp add: ParseFloat_NaN)
  have neg: "ParseFloat (Total (plain_receipt\<lparr>Total := ''-Infinity''\<rparr>)) = Inr NegInf"
    by (simp add: ParseFloat_minus_Infinity)
  have "findPoints_rules_2_3 (Finite 9) 0 = 75"
    using rules_2_3_9 [of 0] by simp
  moreover have "findPoints_rules_2_3 NaN 0 = 0"
    using round_dollar_implies_quarter [OF nan, of 0] rules_2_3_NaN [of 0] by simp
  moreover have "findPoints_rules_2_3 NegInf 0 = 50"
    using round_dollar_implies_quarter [OF neg, of 0] by simp
  ultimately show ?thesis
    using round_dollar_implies_quarter [OF nine, of 0] nine nan neg by simp
qed

section \<open>Adding to the running total\<close>


lemma rule_5_shift:
  "findPoints_rule_5 pf items (tot + c)
     = (case findPoints_rule_5 pf items tot of Inl err \<Rightarrow> Inl err | Inr t \<Rightarrow> Inr (t + c))"
proof (induction items arbitrary: tot)
  case Nil
  then show ?case by simp
next
  case (Cons item items)
  have swap: "tot + c + k = tot + k + c" for k
    by simp
  show ?case
    by (simp add: Let_def swap Cons.IH split: sum.splits)
qed

lemma rule_6_shift:
  "findPoints_rule_6 d (tot + c)
     = (case findPoints_rule_6 d tot of Inl err \<Rightarrow> Inl err | Inr t \<Rightarrow> Inr (t + c))"
  by (simp add: findPoints_rule_6_def Let_def split: sum.splits)

lemma rule_7_shift:
  "findPoints_rule_7 t tot = Returns score None \<Longrightarrow>
   findPoints_rule_7 t (tot + c) = Returns (score + c) None"
  by (auto simp: findPoints_rule_7_def Let_def split: sum.splits if_splits)





section \<open>An item with an empty description\<close>

lemma rule_5_append:
  "findPoints_rule_5 pf (pre @ post) tot
     = (case findPoints_rule_5 pf pre tot of
          Inl err \<Rightarrow> Inl err | Inr t \<Rightarrow> findPoints_rule_5 pf post t)"
  by (induction pre arbitrary: tot) (simp_all add: Let_def split: sum.splits)

lemma rule_5_earning:
  "length (TrimSpace (ShortDescription item)) mod 3 = 0 \<Longrightarrow> ParseFloat (Price item) = Inr p \<Longrightarrow>
   findPoints_rule_5 pf (pre @ item # post) tot
     = (case findPoints_rule_5 pf (pre @ post) tot of
          Inl err \<Rightarrow> Inl err
        | Inr t \<Rightarrow> Inr (t + int_of_float64 pf (Ceil (f64_mul p const_0_2))))"
  by (simp add: rule_5_append rule_5_shift split: sum.splits)

lemma rule_5_skipping:
  "length (TrimSpace (ShortDescription skipped)) mod 3 \<noteq> 0 \<Longrightarrow>
   findPoints_rule_5 pf (pre @ skipped # post) tot = findPoints_rule_5 pf (pre @ post) tot"
  by (simp add: rule_5_append split: sum.splits)

lemma rule_4_length:
  "length items = length items' \<Longrightarrow> findPoints_rule_4 pf items tot = findPoints_rule_4 pf items' tot"
  by (simp add: findPoints_rule_4_def)

lemma rules_1_to_6_Items:
  "ParseFloat (Total re) = Inr x \<Longrightarrow>
   findPoints_rules_1_to_6 pf (re\<lparr>Items := items\<rparr>)
     = (case findPoints_rule_5 pf items
              (findPoints_rule_4 pf items
                (findPoints_rules_2_3 x (findPoints_rule_1 pf (runes (Retailer re)) 0))) of
          Inl err \<Rightarrow> Inl err
        | Inr t5 \<Rightarrow> findPoints_rule_6 (PurchaseDate re) t5)"
  by (simp add: findPoints_rules_1_to_6_def split: sum.splits)

lemma findPoints_Items_not_parsed:
  "ParseFloat (Total re) = Inl err \<Longrightarrow> findPoints pf (re\<lparr>Items := items\<rparr>) = Returns 0 (Some err)"
  by (simp add: findPoints_def findPoints_rules_1_to_6_def)

lemma findPoints_earning_item:
  assumes earn: "length (TrimSpace (ShortDescription item)) mod 3 = 0"
      "ParseFloat (Price item) = Inr p"
    and skip: "length (TrimSpace (ShortDescription skipped)) mod 3 \<noteq> 0"
    and ret: "findPoints pf (re\<lparr>Items := pre @ skipped # post\<rparr>) = Returns score None"
  shows "findPoints pf (re\<lparr>Items := pre @ item # post\<rparr>)
     = Returns (score + int_of_float64 pf (Ceil (f64_mul p const_0_2))) None"
proof (cases "ParseFloat (Total re)")
  case (Inl err)
  with ret show ?thesis
    by (simp add: findPoints_Items_not_parsed)
next
  case (Inr x)
  let ?pts = "int_of_float64 pf (Ceil (f64_mul p const_0_2))"
  let ?t4 = "findPoints_rule_4 pf (pre @ skipped # post)
    (findPoints_rules_2_3 x (findPoints_rule_1 pf (runes (Retailer re)) 0))"
  have t4: "findPoints_rule_4 pf (pre @ item # post)
      (findPoints_rules_2_3 x (findPoints_rule_1 pf (runes (Retailer re)) 0)) = ?t4"
    by (rule rule_4_length) simp
  from ret obtain t6 where
    t6: "findPoints_rules_1_to_6 pf (re\<lparr>Items := pre @ skipped # post\<rparr>) = Inr t6"
    and r7: "findPoints_rule_7 (PurchaseTime re) t6 = Returns score None"
    by (auto simp: findPoints_def split: sum.splits)
  from t6 obtain t5 where t5: "findPoints_rule_5 pf (pre @ post) ?t4 = Inr t5"
    and r6: "findPoints_rule_6 (PurchaseDate re) t5 = Inr t6"
    by (auto simp: rules_1_to_6_Items [OF Inr] rule_5_skipping [OF skip] split: sum.splits)
  have "findPoints_rules_1_to_6 pf (re\<lparr>Items := pre @ item # post\<rparr>) = Inr (t6 + ?pts)"
    by (simp add: rules_1_to_6_Items [OF Inr] t4 rule_5_earning [OF earn] t5 rule_6_shift r6)
  then show ?thesis
    using rule_7_shift [OF r7, of ?pts] by (simp add: findPoints_def)
qed

lemma findPoints_same_earning:
  assumes "length (TrimSpace (ShortDescription item)) mod 3 = 0" "ParseFloat (Price item) = Inr p"
    and "length (TrimSpace (ShortDescription other)) mod 3 = 0" "ParseFloat (Price other) = Inr p"
  shows "findPoints pf (re\<lparr>Items := pre @ other # post\<rparr>)
     = findPoints pf (re\<lparr>Items := pre @ item # post\<rparr>)"
proof (cases "ParseFloat (Total re)")
  case (Inl err)
  then show ?thesis
    by (simp add: findPoints_Items_not_parsed)
next
  case (Inr x)
  have "findPoints_rule_4 pf (pre @ other # post) t = findPoints_rule_4 pf (pre @ item # post) t" for t
    by (rule rule_4_length) simp
  then have "findPoints_rules_1_to_6 pf (re\<lparr>Items := pre @ other # post\<rparr>)
      = findPoints_rules_1_to_6 pf (re\<lparr>Items := pre @ item # post\<rparr>)"
    using assms by (simp add: rules_1_to_6_Items [OF Inr] rule_5_earning)
  then show ?thesis
    by (simp add: findPoints_def split: sum.splits)
qed

lemma ceiling_points:
  "f64_mul p const_0_2 = Finite y \<Longrightarrow> - (2 ^ 63) \<le> \<lceil>y\<rceil> \<Longrightarrow> \<lceil>y\<rceil> < 2 ^ 63 \<Longrightarrow>
   int_of_float64 pf (Ceil (f64_mul p const_0_2)) = word_of_int \<lceil>y\<rceil>"
  by (simp add: int_of_float64_of_int)

text \<open>
  C7: an item whose description trims to the empty string, and whose price parses as
  \<open>p\<close>, earns \<open>ceil(p * 0.2)\<close> points: the \<^verbatim>\<open>float64\<close> product with the
  constant 0.2, rounded up to an integer and converted to \<^verbatim>\<open>int\<close> (the ceiling of
  the product where that fits an \<^verbatim>\<open>int\<close>). Rule 5 adds them to the running total,
  alone or before any other items; the score of a receipt with the item is the score of
  the same receipt with an item in its place that rule 5 skips, plus these points; and
  it is the score of the same receipt with any item in its place whose trimmed
  description has a length that is a multiple of 3 and whose price parses as \<open>p\<close>.
\<close>

theorem empty_description_earns_points:
  "TrimSpace (ShortDescription item) = [] \<Longrightarrow> ParseFloat (Price item) = Inr p \<Longrightarrow>
   findPoints_rule_5 pf [item] tot = Inr (tot + int_of_float64 pf (Ceil (f64_mul p const_0_2)))
   \<and> (\<forall>items t. findPoints_rule_5 pf items tot = Inr t \<longrightarrow>
         findPoints_rule_5 pf (item # items) tot
           = Inr (t + int_of_float64 pf (Ceil (f64_mul p const_0_2))))
   \<and> (\<forall>y. f64_mul p const_0_2 = Finite y \<and> - (2 ^ 63) \<le> \<lceil>y\<rceil> \<and> \<lceil>y\<rceil> < 2 ^ 63 \<longrightarrow>
         int_of_float64 pf (Ceil (f64_mul p const_0_2)) = word_of_int \<lceil>y\<rceil>)
   \<and> (\<forall>re pre post skipped score.
         length (TrimSpace (ShortDescription skipped)) mod 3 \<noteq> 0
         \<and> findPoints pf (re\<lparr>Items := pre @ skipped # post\<rparr>) = Returns score None \<longrightarrow>
         findPoints pf (re\<lparr>Items := pre @ item # post\<rparr>)
           = Returns (score + int_of_float64 pf (Ceil (f64_mul p const_0_2))) None)
   \<and> (\<forall>re pre post other.
         length (TrimSpace (ShortDescription other)) mod 3 = 0
         \<and> ParseFloat (Price other) = Inr p \<longrightarrow>
         findPoints pf (re\<lparr>Items := pre @ other # post\<rparr>)
           = findPoints pf (re\<lparr>Items := pre @ item # post\<rparr>))"
proof -
  assume trim: "TrimSpace (ShortDescription item) = []"
    and price: "ParseFloat (Price item) = Inr p"
  from trim have len: "length (TrimSpace (ShortDescription item)) mod 3 = 0"
    by simp
  let ?pts = "int_of_float64 pf (Ceil (f64_mul p const_0_2))"
  have single: "findPoints_rule_5 pf [item] tot = Inr (tot + ?pts)"
    using rule_5_earning [OF len price, of pf "[]" "[]" tot] by simp
  have front: "findPoints_rule_5 pf (item # items) tot = Inr (t + ?pts)"
    if "findPoints_rule_5 pf items tot = Inr t" for items t
    using rule_5_earning [OF len price, of pf "[]" items tot] that by simp
  have front_all: "\<forall>items t. findPoints_rule_5 pf items tot = Inr t \<longrightarrow>
      findPoints_rule_5 pf (item # items) tot = Inr (t + ?pts)"
    using front by blast
  have ceiling: "\<forall>y. f64_mul p const_0_2 = Finite y \<and> - (2 ^ 63) \<le> \<lceil>y\<rceil> \<and> \<lceil>y\<rceil> < 2 ^ 63 \<longrightarrow>
      ?pts = word_of_int \<lceil>y\<rceil>"
    using ceiling_points [of p _ pf] by blast
  have score: "\<forall>re pre post skipped score.
      length (TrimSpace (ShortDescription skipped)) mod 3 \<noteq> 0
      \<and> findPoints pf (re\<lparr>Items := pre @ skipped # post\<rparr>) = Returns score None \<longrightarrow>
      findPoints pf (re\<lparr>Items := pre @ item # post\<rparr>) = Returns (score + ?pts) None"
    using findPoints_earning_item [OF len price] by blast
  have same: "\<forall>re pre post other.
      length (TrimSpace (ShortDescription other)) mod 3 = 0 \<and> ParseFloat (Price other) = Inr p \<longrightarrow>
      findPoints pf (re\<lparr>Items := pre @ other # post\<rparr>)
        = findPoints pf (re\<lparr>Items := pre @ item # post\<rparr>)"
    by (simp add: findPoints_same_earning [OF len price])
  from single front_all ceiling score same show ?thesis
    by (intro conjI)
qed

lemma product_12_25:
  "f64_mul (Finite (49 / 4)) const_0_2 = Finite (2758454771764429 / 1125899906842624)"
  by code_simp

theorem empty_description_earns_points_witness:
  "TrimSpace (ShortDescription \<lparr>ShortDescription = ''  '', Price = ''12.25''\<rparr>) = []
   \<and> ParseFloat (Price \<lparr>ShortDescription = ''  '', Price = ''12.25''\<rparr>) = Inr (Finite (49 / 4))
   \<and> f64_mul (Finite (49 / 4)) const_0_2 = Finite (2758454771764429 / 1125899906842624)
   \<and> int_of_float64 example_platform (Ceil (f64_mul (Finite (49 / 4)) const_0_2)) = 3
   \<and> findPoints_rule_5 example_platform [\<lparr>ShortDescription = ''  '', Price = ''12.25''\<rparr>] 10
       = Inr 13
   \<and> findPoints example_platform
        (plain_receipt\<lparr>Items := [\<lparr>ShortDescription = ''ab'', Price = ''12.25''\<rparr>]\<rparr>)
       = Returns 75 None
   \<and> findPoints example_platform
        (plain_receipt\<lparr>Items := [\<lparr>ShortDescription = ''  '', Price = ''12.25''\<rparr>]\<rparr>)
       = Returns 78 None
   \<and> findPoints example_platform
        (plain_receipt\<lparr>Items := [\<lparr>ShortDescription = ''abc'', Price = ''12.25''\<rparr>]\<rparr>)
       = Returns 78 None"
proof -
  let ?item = "\<lparr>ShortDescription = ''  '', Price = ''12.25''\<rparr>"
  let ?skipped = "\<lparr>ShortDescription = ''ab'', Price = ''12.25''\<rparr>"
  let ?other = "\<lparr>ShortDescription = ''abc'', Price = ''12.25''\<rparr>"
  let ?pts = "int_of_float64 example_platform (Ceil (f64_mul (Finite (49 / 4)) const_0_2))"
  have trim: "TrimSpace (ShortDescription ?item) = []"
    by (simp add: Trim_blank)
  have price: "ParseFloat (Price ?item) = Inr (Finite (49 / 4))"
    by (simp add: ParseFloat_12_25)
  have ceiling: "\<lceil>2758454771764429 / 1125899906842624 :: rat\<rceil> = 3"
    by (simp add: ceiling_eq_iff)
  have skip: "length (TrimSpace (ShortDescription ?skipped)) mod 3 \<noteq> 0"
    by (simp add: Trim_ab)
  have "findPoints_rules_1_to_6 example_platform (plain_receipt\<lparr>Items := [?skipped]\<rparr>) = Inr 75"
    by (simp add: findPoints_rules_1_to_6_def plain_receipt_def rule_1_Nil ParseFloat_9_00
        rules_2_3_9 rule_4_single rule_6_02 Trim_ab)
  then have base: "findPoints example_platform (plain_receipt\<lparr>Items := [] @ ?skipped # []\<rparr>)
      = Returns 75 None"
    by (simp add: findPoints_def plain_receipt_def rule_7_13_00)
  note earns = empty_description_earns_points [OF trim price, of example_platform 10]
  from earns have "f64_mul (Finite (49 / 4)) const_0_2 = Finite (2758454771764429 / 1125899906842624)
      \<and> - (2 ^ 63) \<le> \<lceil>2758454771764429 / 1125899906842624 :: rat\<rceil>
      \<and> \<lceil>2758454771764429 / 1125899906842624 :: rat\<rceil> < 2 ^ 63 \<longrightarrow>
      ?pts = word_of_int \<lceil>2758454771764429 / 1125899906842624 :: rat\<rceil>"
    by blast
  then have pts: "?pts = 3"
    by (simp only: product_12_25 ceiling) simp
  from earns have single: "findPoints_rule_5 example_platform [?item] 10 = Inr (10 + ?pts)"
    by blast
  from earns skip base
  have with_item: "findPoints example_platform (plain_receipt\<lparr>Items := [] @ ?item # []\<rparr>)
      = Returns (75 + ?pts) None"
    by blast
  have "findPoints example_platform (plain_receipt\<lparr>Items := [] @ ?other # []\<rparr>)
      = findPoints example_platform (plain_receipt\<lparr>Items := [] @ ?item # []\<rparr>)"
    by (rule earns [THEN conjunct2, THEN conjunct2, THEN conjunct2, THEN conjunct2, rule_format])
      (simp add: Trim_abc ParseFloat_12_25)
  with with_item single trim price base show ?thesis
    unfolding pts by (simp add: product_12_25)
qed

section \<open>Looking up the points\<close>

lemma Marshal_points_zero: "Marshal_points 0 = ''{\"points\":0}''"
  by code_simp

lemma handleGetReceiptPoints_loop_found:
  "find (\<lambda>receipt. idFromURL = uuid_String (Id receipt)) receipts = Some receipt \<Longrightarrow>
   findPoints pf receipt = Returns points err \<Longrightarrow>
   handleGetReceiptPoints_loop pf rh w idFromURL receipts
     = Handled rh (w\<lparr>calls := calls w @ [Write (Marshal_points points)]\<rparr>)"
  by (induction receipts) (auto simp: rw_Write_def split: if_splits)

text \<open>
  C4: when the identifier of the request is that of a stored receipt and
  \<open>findPoints\<close> returns an error for it, the handler still writes the points as JSON,
  with the score 0 that came with the error, and calls no \<^verbatim>\<open>WriteHeader\<close>: the
  status of the response is 200 and its body is \<^verbatim>\<open>{"points":0}\<close>; the store is as
  it was.
\<close>

theorem points_written_despite_error:
  "find (\<lambda>receipt. idFromURL = uuid_String (Id receipt)) (Receipts rh) = Some receipt \<Longrightarrow>
   findPoints pf receipt = Returns points (Some err) \<Longrightarrow>
   points = 0
   \<and> (\<exists>w. handleGetReceiptPoints pf rh (new_writer werr) idFromURL = Handled rh w
          \<and> calls w = [Write (Marshal_points points)]
          \<and> calls w = [Write ''{\"points\":0}'']
          \<and> response_status (calls w) = 200
          \<and> response_body (calls w) = ''{\"points\":0}'')"
proof -
  assume found: "find (\<lambda>receipt. idFromURL = uuid_String (Id receipt)) (Receipts rh) = Some receipt"
    and ret: "findPoints pf receipt = Returns points (Some err)"
  from ret have zero: "points = 0"
    by (rule findPoints_error_score)
  have "handleGetReceiptPoints pf rh (new_writer werr) idFromURL
      = Handled rh ((new_writer werr)\<lparr>calls := calls (new_writer werr) @ [Write (Marshal_points points)]\<rparr>)"
    unfolding handleGetReceiptPoints_def
    using found ret by (rule handleGetReceiptPoints_loop_found)
  with zero show ?thesis
    by (simp add: new_writer_def Marshal_points_zero)
qed

theorem points_written_despite_error_witness:
  "find (\<lambda>receipt. uuid_String 7 = uuid_String (Id receipt))
      (Receipts \<lparr>Receipts = [plain_receipt\<lparr>Total := ''abc''\<rparr>]\<rparr>)
     = Some (plain_receipt\<lparr>Total := ''abc''\<rparr>)
   \<and> findPoints example_platform (plain_receipt\<lparr>Total := ''abc''\<rparr>)
       = Returns 0 (Some (NumError ''ParseFloat'' ''abc'' ErrSyntax))
   \<and> (\<exists>w. handleGetReceiptPoints example_platform
            \<lparr>Receipts = [plain_receipt\<lparr>Total := ''abc''\<rparr>]\<rparr> (new_writer None) (uuid_String 7)
          = Handled \<lparr>Receipts = [plain_receipt\<lparr>Total := ''abc''\<rparr>]\<rparr> w
          \<and> calls w = [Write ''{\"points\":0}'']
          \<and> response_status (calls w) = 200)"
proof -
  let ?rh = "\<lparr>Receipts = [plain_receipt\<lparr>Total := ''abc''\<rparr>]\<rparr>"
  have found: "find (\<lambda>receipt. uuid_String 7 = uuid_String (Id receipt)) (Receipts ?rh)
      = Some (plain_receipt\<lparr>Total := ''abc''\<rparr>)"
    by (simp add: plain_receipt_def)
  from points_written_despite_error [OF found findPoints_bad_total [of example_platform], of None]
  obtain w where "handleGetReceiptPoints example_platform ?rh (new_writer None) (uuid_String 7)
      = Handled ?rh w" "calls w = [Write ''{\"points\":0}'']" "response_status (calls w) = 200"
    by blast
  with found findPoints_bad_total [of example_platform] show ?thesis
    by blast
qed

section \<open>The store\<close>

lemma Id_new_StorageReceipt: "Id (new_StorageReceipt ident p) = ident"
  by (simp add: new_StorageReceipt_def)

lemma store_of_loop:
  "store_of (handleGetReceiptPoints_loop pf rh w idFromURL receipts) = rh"
  by (induction receipts) (auto simp: rw_Write_def Let_def split: result.splits)

lemma serve_GetPoints: "serve pf rh (GetPoints idFromURL werr) = rh"
  by (simp add: handleGetReceiptPoints_def store_of_loop)

lemma serve_PostProcess_stored:
  "serve pf rh (PostProcess (Inr postReceipt) (Inr newUUID) werr)
     = rh\<lparr>Receipts := Receipts rh @ [new_StorageReceipt newUUID postReceipt]\<rparr>"
  by (simp add: handleProcessReceipts_def rw_Write_def Let_def)

lemma serve_PostProcess_undecoded: "serve pf rh (PostProcess (Inl err) generated werr) = rh"
  by (simp add: handleProcessReceipts_def rw_Write_def rw_WriteHeader_def Let_def)

lemma serve_PostProcess_ungenerated:
  "serve pf rh (PostProcess (Inr postReceipt) (Inl err) werr) = rh"
  by (simp add: handleProcessReceipts_def)

declare serve.simps [simp del]

lemma serve_cases:
  "serve pf rh req = rh
   \<or> (\<exists>postReceipt newUUID werr. req = PostProcess (Inr postReceipt) (Inr newUUID) werr
        \<and> serve pf rh req = rh\<lparr>Receipts := Receipts rh @ [new_StorageReceipt newUUID postReceipt]\<rparr>)"
proof (cases req)
  case (PostProcess decoded generated werr)
  then show ?thesis
    by (cases decoded; cases generated)
      (simp_all add: serve_PostProcess_stored serve_PostProcess_undecoded
        serve_PostProcess_ungenerated)
next
  case (GetPoints idFromURL werr)
  then show ?thesis
    by (simp add: serve_GetPoints)
qed

lemma serve_prefix: "prefix (Receipts rh) (Receipts (serve pf rh req))"
  using serve_cases [of pf rh req] by auto

lemma serve_distinct:
  "distinct (map Id (Receipts rh)) \<Longrightarrow> fresh rh req \<Longrightarrow>
   distinct (map Id (Receipts (serve pf rh req)))"
  using serve_cases [of pf rh req] by (auto simp: Id_new_StorageReceipt)

lemma reachable_distinct: "reachable pf rh \<Longrightarrow> distinct (map Id (Receipts rh))"
  by (induction rule: reachable.induct) (simp_all add: NewReceiptHandler_def serve_distinct)

text \<open>
  C9: in every state the server reaches from the empty store, with identifiers that
  are fresh when generated, no two stored receipts have the same identifier; and from
  such a state every request leaves the stored receipts as they are, in their order,
  at the front of the store (none is removed or changed), a lookup and a submission
  that fails to decode or to get an identifier leave the store as it is, and a
  submission that succeeds appends exactly one receipt, the submitted one with the
  generated identifier.
\<close>

theorem store_append_only_unique:
  "reachable pf rh \<Longrightarrow>
   distinct (map Id (Receipts rh))
   \<and> (\<forall>req. prefix (Receipts rh) (Receipts (serve pf rh req)))
   \<and> (\<forall>postReceipt newUUID werr.
         Receipts (serve pf rh (PostProcess (Inr postReceipt) (Inr newUUID) werr))
           = Receipts rh @ [new_StorageReceipt newUUID postReceipt])
   \<and> (\<forall>err generated werr. serve pf rh (PostProcess (Inl err) generated werr) = rh)
   \<and> (\<forall>postReceipt err werr. serve pf rh (PostProcess (Inr postReceipt) (Inl err) werr) = rh)
   \<and> (\<forall>idFromURL werr. serve pf rh (GetPoints idFromURL werr) = rh)"
  by (simp add: reachable_distinct serve_prefix serve_PostProcess_stored
      serve_PostProcess_undecoded serve_PostProcess_ungenerated serve_GetPoints)

theorem store_append_only_unique_witness:
  "reachable example_platform
     (serve example_platform
       (serve example_platform NewReceiptHandler (PostProcess (Inr test_receipt_1) (Inr 1) None))
       (PostProcess (Inr test_receipt_1) (Inr 2) None))
   \<and> map Id (Receipts
        (serve example_platform
          (serve example_platform NewReceiptHandler (PostProcess (Inr test_receipt_1) (Inr 1) None))
          (PostProcess (Inr test_receipt_1) (Inr 2) None))) = [1, 2]
   \<and> distinct (map Id (Receipts
        (serve example_platform
          (serve example_platform NewReceiptHandler (PostProcess (Inr test_receipt_1) (Inr 1) None))
          (PostProcess (Inr test_receipt_1) (Inr 2) None))))"
proof -
  let ?s1 = "serve example_platform NewReceiptHandler (PostProcess (Inr test_receipt_1) (Inr 1) None)"
  let ?s2 = "serve example_platform ?s1 (PostProcess (Inr test_receipt_1) (Inr 2) None)"
  have r1: "reachable example_platform ?s1"
    by (rule reachable_serve [OF reachable_init]) (simp add: NewReceiptHandler_def)
  have ids1: "map Id (Receipts ?s1) = [1]"
    by (simp add: serve_PostProcess_stored NewReceiptHandler_def Id_new_StorageReceipt)
  have r2: "reachable example_platform ?s2"
    by (rule reachable_serve [OF r1]) (simp add: ids1)
  have ids2: "map Id (Receipts ?s2) = [1, 2]"
    using ids1 by (simp add: serve_PostProcess_stored [of _ ?s1] Id_new_StorageReceipt)
  from store_append_only_unique [OF r2] r2 ids2 show ?thesis
    by simp
qed

end
